theory Spec2Isabelle
  imports Main "HOL-Library.Word"
begin

chapter \<open>SunStudio: generation strategies and the Gemini service layer\<close>

text \<open>
  A shallow embedding of the strategy module (the five \<open>process...\<close> functions and
  \<open>getGenerationStrategy\<close>) and of the parts of \<open>services/geminiService.ts\<close> that the
  verified properties talk about. Promises are modelled by their settled outcome: a
  rejection is \<open>Inl\<close> of the thrown value, a fulfilment is \<open>Inr\<close> of the result. Every
  call that leaves the module (an imported service function, an SDK method, a timed wait)
  is appended to a trace, so that "was never called" and "was called exactly once" are
  statements about that trace. A promise of the browser or of the SDK is taken to
  settle; the one loop of the source that nothing bounds, the polling of a video
  operation, is modelled with fuel, and a function that contains it returns \<open>None\<close>
  when it does not return.
\<close>

section \<open>JavaScript values\<close>

text \<open>
  An optional string property is a \<open>string option\<close>: \<open>None\<close> stands for
  \<open>undefined\<close> and \<open>null\<close>. JavaScript's truthiness of such a value: present and not the
  empty string.
\<close>

definition truthy :: "string option \<Rightarrow> bool" where
  "truthy v = (case v of None \<Rightarrow> False | Some s \<Rightarrow> s \<noteq> [])"

text \<open>\<open>a || b\<close> on two optional strings, and \<open>a || 'literal'\<close>.\<close>

definition js_or :: "string option \<Rightarrow> string option \<Rightarrow> string option" where
  "js_or a b = (if truthy a then a else b)"

definition or_default :: "string option \<Rightarrow> string \<Rightarrow> string" where
  "or_default a d = (case a of None \<Rightarrow> d | Some s \<Rightarrow> if s = [] then d else s)"

text \<open>\<open>s.startsWith(p)\<close> and \<open>s.includes(p)\<close>.\<close>

fun startsWith :: "string \<Rightarrow> string \<Rightarrow> bool" where
  "startsWith s [] = True"
| "startsWith [] (p # ps) = False"
| "startsWith (c # cs) (p # ps) = (c = p \<and> startsWith cs ps)"

fun str_includes :: "string \<Rightarrow> string \<Rightarrow> bool" where
  "str_includes [] p = (p = [])"
| "str_includes (c # cs) p = (startsWith (c # cs) p \<or> str_includes cs p)"

text \<open>
  What a \<open>catch\<close> clause can receive. An error object is described by the properties
  the code reads from it: \<open>status\<close>, \<open>code\<close>, \<open>message\<close>, \<open>error.message\<close> (here
  \<open>nestedMessage\<close>) and the text \<open>JSON.stringify\<close> gives for it (\<open>json\<close>).
\<close>

record ErrorObject =
  status :: "int option"
  code :: "int option"
  message :: "string option"
  nestedMessage :: "string option"
  json :: string

datatype js_error = Nullish | ThrownString string | ThrownObject ErrorObject

text \<open>\<open>new Error(msg)\<close>: only \<open>message\<close> is set; \<open>JSON.stringify\<close> of it is \<open>{}\<close>.\<close>

definition newError :: "string \<Rightarrow> js_error" where
  "newError msg = ThrownObject \<lparr>status = None, code = None, message = Some msg,
     nestedMessage = None, json = ''{}''\<rparr>"

section \<open>The data model of the service layer\<close>

text \<open>
  The request and response shapes of the SDK, as far as \<open>geminiService.ts\<close> builds and
  reads them. A request part is inline data (base64 text and MIME type) or text.
\<close>

datatype Part = InlinePart string string | TextPart string

text \<open>
  The \<open>config\<close> of a \<open>generateContent\<close> request: \<open>imageConfig\<close> with aspect ratio and
  image size, or the speech configuration (audio modality) with the voice name.
\<close>

datatype ContentConfig = ImageConfig string string | SpeechConfig string

text \<open>
  A response part with its optional \<open>inlineData\<close>; \<open>candidateParts\<close> is
  \<open>response.candidates?.[0]?.content?.parts\<close>, \<open>None\<close> when a link of that chain is
  missing. The field \<open>data\<close> of inline data is written \<open>data'\<close>.
\<close>

record InlineData =
  data' :: "string option"
  mimeType :: "string option"

record ResponsePart =
  inlineData :: "InlineData option"

record GenerateContentResponse =
  candidateParts :: "ResponsePart list option"

text \<open>The system prompts are long literals; each is referred to by the name of its constant.\<close>

datatype SystemInstruction = SYSTEM_INSTRUCTION | STORYBOARD_INSTRUCTION | HELP_ME_WRITE_INSTRUCTION

text \<open>The optional flags of \<open>sendChatMessage\<close>, each by its truthiness.\<close>

record ChatOptions =
  isThinkingMode :: bool
  isStoryboard :: bool
  isHelpMeWrite :: bool

text \<open>A chat history entry is a role and the texts of its parts.\<close>

type_synonym ChatHistory = "(string \<times> string list) list"

text \<open>
  Video generation: an image as bytes and MIME type; the \<open>inputs\<close> object of the
  request (\<open>prompt\<close>, \<open>image\<close>, \<open>video\<close>, here with the suffix \<open>Field\<close>) and its
  \<open>config\<close>; the generated video (its \<open>uri\<close>); and the pollable operation with its
  \<open>done\<close> flag (\<open>isDone\<close>), whose \<open>generatedVideo\<close> is
  \<open>response?.generatedVideos?.[0]?.video\<close>.
\<close>

record VideoImage =
  imageBytes :: string
  imageMimeType :: string

record VideoInputs =
  promptField :: string
  imageField :: "VideoImage option"
  videoField :: "string option"

record VideoConfig =
  numberOfVideos :: nat
  aspectRatio :: string
  resolution :: string
  lastFrame :: "VideoImage option"

record Video =
  uri :: "string option"

record VideoOperation =
  isDone :: bool
  generatedVideo :: "Video option"

text \<open>The result of \<open>convertImageToCompatibleFormat\<close>, the options and the result of \<open>generateVideo\<close>.\<close>

record CompatImage =
  compatData :: string
  compatMimeType :: string
  fullDataUri :: string

record VideoOptions =
  aspectRatio :: "string option"
  count :: "nat option"
  generationMode :: "string option"
  resolution :: "string option"

record VideoResult =
  uri :: "string option"
  isFallbackImage :: "bool option"
  videoMetadata :: "Video option"
  uris :: "string list option"

section \<open>The data model of the strategy module\<close>

text \<open>
  \<open>AppNode\<close> is declared in \<open>types.ts\<close>; the strategies read the properties below from
  \<open>node.data\<close>. \<open>videoMetadata\<close> is only tested for truthiness and is represented by
  that test. The field \<open>image\<close> is written \<open>image'\<close>.
\<close>

record NodeData =
  image' :: "string option"
  croppedFrame :: "string option"
  videoUri :: "string option"
  videoMetadata :: bool
  generationMode :: "string option"
  aspectRatio :: "string option"

record AppNode =
  data :: NodeData

text \<open>The options object of \<open>generateImageFromText\<close>.\<close>

record ImageOptions =
  aspectRatio :: "string option"
  resolution :: "string option"
  count :: "nat option"

text \<open>
  \<open>StrategyResult\<close>. \<open>videoInput\<close> has type \<open>any\<close>; it is an opaque optional payload
  (\<open>None\<close> is \<open>null\<close>). \<open>referenceImages\<close> is \<open>string[] | undefined\<close>.
\<close>

record StrategyResult =
  finalPrompt :: string
  videoInput :: "string option"
  inputImageForGeneration :: "string option"
  referenceImages :: "string list option"
  generationMode :: string

section \<open>Effects: the trace\<close>

text \<open>
  The calls the strategy module makes into \<open>geminiService\<close>, each with its arguments;
  a timed wait with its milliseconds; the remote calls of the SDK with their requests;
  and the loading of an image through the browser's image element. Console output is
  not recorded. The world is the list of the events so far, oldest first.
\<close>

datatype event =
    CallUrlToBase64 string
  | CallExtractLastFrame string
  | CallAnalyzeVideo string string string
  | CallOrchestrateVideoPrompt "string list" string
  | CallGenerateImageFromText string string "string list" ImageOptions
  | Waited nat
  | ChatSendMessage string SystemInstruction ChatHistory string
  | GenerateContent string "Part list" ContentConfig
  | GenerateVideos string VideoInputs VideoConfig
  | GetVideosOperation VideoOperation
  | LoadImage string

type_synonym world = "event list"

text \<open>
  The five functions the strategy module imports, as parameters: each maps the trace so
  far and its arguments to the settled outcome of the promise it returns. Whatever is
  proved about a strategy therefore holds for every behaviour of the imported functions.
\<close>

record Services =
  urlToBase64 :: "world \<Rightarrow> string \<Rightarrow> js_error + string"
  extractLastFrame :: "world \<Rightarrow> string \<Rightarrow> js_error + string"
  analyzeVideo :: "world \<Rightarrow> string \<Rightarrow> string \<Rightarrow> string \<Rightarrow> js_error + string"
  orchestrateVideoPrompt :: "world \<Rightarrow> string list \<Rightarrow> string \<Rightarrow> js_error + string"
  generateImageFromText ::
    "world \<Rightarrow> string \<Rightarrow> string \<Rightarrow> string list \<Rightarrow> ImageOptions \<Rightarrow> js_error + string list"

text \<open>Awaiting an imported function: its outcome, and the call recorded in the trace.\<close>

definition await_urlToBase64 :: "Services \<Rightarrow> string \<Rightarrow> world \<Rightarrow> (js_error + string) \<times> world" where
  "await_urlToBase64 sv url w = (urlToBase64 sv w url, w @ [CallUrlToBase64 url])"

definition await_extractLastFrame :: "Services \<Rightarrow> string \<Rightarrow> world \<Rightarrow> (js_error + string) \<times> world" where
  "await_extractLastFrame sv src w = (extractLastFrame sv w src, w @ [CallExtractLastFrame src])"

definition await_analyzeVideo ::
  "Services \<Rightarrow> string \<Rightarrow> string \<Rightarrow> string \<Rightarrow> world \<Rightarrow> (js_error + string) \<times> world" where
  "await_analyzeVideo sv vid question model w =
     (analyzeVideo sv w vid question model, w @ [CallAnalyzeVideo vid question model])"

definition await_orchestrateVideoPrompt ::
  "Services \<Rightarrow> string list \<Rightarrow> string \<Rightarrow> world \<Rightarrow> (js_error + string) \<times> world" where
  "await_orchestrateVideoPrompt sv images userPrompt w =
     (orchestrateVideoPrompt sv w images userPrompt, w @ [CallOrchestrateVideoPrompt images userPrompt])"

definition await_generateImageFromText ::
  "Services \<Rightarrow> string \<Rightarrow> string \<Rightarrow> string list \<Rightarrow> ImageOptions \<Rightarrow> world
     \<Rightarrow> (js_error + string list) \<times> world" where
  "await_generateImageFromText sv p model images opts w =
     (generateImageFromText sv w p model images opts,
      w @ [CallGenerateImageFromText p model images opts])"

text \<open>
  The block shared by three strategies: \<open>if (v.startsWith('http')) v = await urlToBase64(v)\<close>.
\<close>

definition inlineIfRemote :: "Services \<Rightarrow> string \<Rightarrow> world \<Rightarrow> (js_error + string) \<times> world" where
  "inlineIfRemote sv v w = (if startsWith v ''http'' then await_urlToBase64 sv v w else (Inr v, w))"

section \<open>The strategies\<close>

subsection \<open>Default\<close>

definition processDefaultVideoGen ::
  "Services \<Rightarrow> AppNode \<Rightarrow> AppNode list \<Rightarrow> string \<Rightarrow> world \<Rightarrow> StrategyResult \<times> world" where
  "processDefaultVideoGen sv node inputs prompt w =
     (let imageInput = find (\<lambda>n. truthy (image' (data n)) \<or> truthy (croppedFrame (data n))) inputs;
          inputImage = (case imageInput of
                          None \<Rightarrow> None
                        | Some n \<Rightarrow> js_or (js_or (croppedFrame (data n)) (image' (data n))) None)
      in (\<lparr>finalPrompt = prompt, videoInput = None, inputImageForGeneration = inputImage,
           referenceImages = None, generationMode = ''DEFAULT''\<rparr>, w))"

subsection \<open>StoryContinuator\<close>

text \<open>
  The \<open>try\<close> block of the strategy: the last frame of the upstream video, as the list
  \<open>inputImages\<close>. Every rejection inside it is caught and leaves the list empty.
\<close>

definition continuatorFrames :: "Services \<Rightarrow> string \<Rightarrow> world \<Rightarrow> string list \<times> world" where
  "continuatorFrames sv videoUrl w =
     (case inlineIfRemote sv videoUrl w of
        (Inl e, w1) \<Rightarrow> ([], w1)
      | (Inr videoSrc, w1) \<Rightarrow>
          (case await_extractLastFrame sv videoSrc w1 of
             (Inl e, w2) \<Rightarrow> ([], w2)
           | (Inr frame, w2) \<Rightarrow> (if frame \<noteq> [] then [frame] else [], w2)))"

definition processStoryContinuator ::
  "Services \<Rightarrow> AppNode \<Rightarrow> AppNode list \<Rightarrow> string \<Rightarrow> world \<Rightarrow> StrategyResult \<times> world" where
  "processStoryContinuator sv node inputs prompt w =
     (let videoNode = find (\<lambda>n. truthy (videoUri (data n)) \<or> videoMetadata (data n)) inputs
      in case (case videoNode of
                 None \<Rightarrow> ([], w)
               | Some vn \<Rightarrow>
                   (case videoUri (data vn) of
                      None \<Rightarrow> ([], w)
                    | Some videoUrl \<Rightarrow>
                        if videoUrl = [] then ([], w) else continuatorFrames sv videoUrl w))
         of (inputImages, w') \<Rightarrow>
           (\<lparr>finalPrompt = prompt, videoInput = None,
             inputImageForGeneration = (case inputImages of [] \<Rightarrow> None | x # _ \<Rightarrow> Some x),
             referenceImages = None, generationMode = ''CONTINUE''\<rparr>, w'))"

subsection \<open>FrameWeaver\<close>

text \<open>The \<open>forEach\<close> that collects \<open>croppedFrame || image\<close> of every input, in order.\<close>

primrec collectInputImages :: "AppNode list \<Rightarrow> string list" where
  "collectInputImages [] = []"
| "collectInputImages (n # ns) =
     (case js_or (croppedFrame (data n)) (image' (data n)) of
        None \<Rightarrow> collectInputImages ns
      | Some src \<Rightarrow> if src = [] then collectInputImages ns else src # collectInputImages ns)"

definition processFrameWeaver ::
  "Services \<Rightarrow> AppNode \<Rightarrow> AppNode list \<Rightarrow> string \<Rightarrow> world \<Rightarrow> StrategyResult \<times> world" where
  "processFrameWeaver sv node inputs prompt w =
     (let inputImages = collectInputImages inputs
      in case (if 2 \<le> length inputImages
               then (case await_orchestrateVideoPrompt sv
                            [inputImages ! 0, inputImages ! (length inputImages - 1)] prompt w of
                       (Inl e, w1) \<Rightarrow> (prompt, w1)
                     | (Inr bridged, w1) \<Rightarrow> (bridged, w1))
               else (prompt, w))
         of (final, w') \<Rightarrow>
           (\<lparr>finalPrompt = final, videoInput = None,
             inputImageForGeneration = (case inputImages of [] \<Rightarrow> None | x # _ \<Rightarrow> Some x),
             referenceImages = Some inputImages, generationMode = ''FIRST_LAST_FRAME''\<rparr>, w'))"

subsection \<open>SceneDirector\<close>

text \<open>
  The first \<open>try\<close> block of SceneDirector and the one of CharacterRef: the upstream
  video is inlined if remote and analysed with the given question; a rejection is
  swallowed and leaves the description empty.
\<close>

definition describeVideo :: "Services \<Rightarrow> string \<Rightarrow> string \<Rightarrow> world \<Rightarrow> string \<times> world" where
  "describeVideo sv videoUrl question w =
     (case inlineIfRemote sv videoUrl w of
        (Inl e, w1) \<Rightarrow> ([], w1)
      | (Inr vidData, w1) \<Rightarrow>
          (case await_analyzeVideo sv vidData question ''gemini-3-flash-preview'' w1 of
             (Inl e, w2) \<Rightarrow> ([], w2)
           | (Inr description, w2) \<Rightarrow> (description, w2)))"

definition describeFirstVideo :: "Services \<Rightarrow> AppNode list \<Rightarrow> string \<Rightarrow> world \<Rightarrow> string \<times> world" where
  "describeFirstVideo sv inputs question w =
     (case find (\<lambda>n. truthy (videoUri (data n))) inputs of
        None \<Rightarrow> ([], w)
      | Some vn \<Rightarrow>
          (case videoUri (data vn) of
             None \<Rightarrow> ([], w)
           | Some videoUrl \<Rightarrow>
               if videoUrl = [] then ([], w) else describeVideo sv videoUrl question w))"

text \<open>The image selection of SceneDirector (the \<open>if (node.data.croppedFrame) ... else ...\<close>).\<close>

definition selectSceneImage :: "AppNode \<Rightarrow> AppNode list \<Rightarrow> string option" where
  "selectSceneImage node inputs =
     (if truthy (croppedFrame (data node)) then croppedFrame (data node)
      else (case find (\<lambda>n. truthy (croppedFrame (data n))) inputs of
              Some cropSource \<Rightarrow> croppedFrame (data cropSource)
            | None \<Rightarrow>
                (case find (\<lambda>n. truthy (image' (data n))) inputs of
                   Some imageSource \<Rightarrow> image' (data imageSource)
                 | None \<Rightarrow> None)))"

text \<open>The restoration pass: its second \<open>try\<close> block, run only on a truthy selection.\<close>

definition restoreImage ::
  "Services \<Rightarrow> AppNode \<Rightarrow> string \<Rightarrow> string option \<Rightarrow> world \<Rightarrow> string option \<times> world" where
  "restoreImage sv node prompt selected w =
     (case selected of
        None \<Rightarrow> (selected, w)
      | Some img \<Rightarrow>
          if img = [] then (selected, w)
          else (case await_generateImageFromText sv
                       (''Sharpen and upscale this crop to 4K cinematic quality. Preserve composition exactly. Description: ''
                          @ prompt @ ''.'')
                       ''gemini-2.5-flash-image'' [img]
                       \<lparr>aspectRatio = Some (or_default (NodeData.aspectRatio (data node)) ''16:9''),
                        resolution = None, count = Some 1\<rparr> w of
                  (Inl e, w1) \<Rightarrow> (selected, w1)
                | (Inr restoredImages, w1) \<Rightarrow>
                    (case restoredImages of [] \<Rightarrow> (selected, w1) | r # _ \<Rightarrow> (Some r, w1))))"

definition processSceneDirector ::
  "Services \<Rightarrow> AppNode \<Rightarrow> AppNode list \<Rightarrow> string \<Rightarrow> world \<Rightarrow> StrategyResult \<times> world" where
  "processSceneDirector sv node inputs prompt w =
     (case describeFirstVideo sv inputs ''Analyze the visual style briefly.'' w of
        (upstreamContextStyle, w1) \<Rightarrow>
          (case restoreImage sv node prompt (selectSceneImage node inputs) w1 of
             (inputImage, w2) \<Rightarrow>
               (\<lparr>finalPrompt = prompt @ ''. \<newline>\<newline>Style: '' @ upstreamContextStyle,
                 videoInput = None, inputImageForGeneration = inputImage,
                 referenceImages = None, generationMode = ''CUT''\<rparr>, w2)))"

subsection \<open>CharacterRef\<close>

definition processCharacterRef ::
  "Services \<Rightarrow> AppNode \<Rightarrow> AppNode list \<Rightarrow> string \<Rightarrow> world \<Rightarrow> StrategyResult \<times> world" where
  "processCharacterRef sv node inputs prompt w =
     (let characterImage =
            (case find (\<lambda>n. truthy (image' (data n))) inputs of
               None \<Rightarrow> None
             | Some n \<Rightarrow> js_or (image' (data n)) None)
      in case describeFirstVideo sv inputs ''Describe only the motion and camera movement.'' w of
           (motionDescription, w1) \<Rightarrow>
             (\<lparr>finalPrompt = (if motionDescription \<noteq> []
                               then ''Motion: '' @ motionDescription @ ''. '' @ prompt
                               else prompt),
               videoInput = None, inputImageForGeneration = characterImage,
               referenceImages = None, generationMode = ''CHARACTER_REF''\<rparr>, w1))"

subsection \<open>The dispatcher\<close>

definition getGenerationStrategy ::
  "Services \<Rightarrow> AppNode \<Rightarrow> AppNode list \<Rightarrow> string \<Rightarrow> world \<Rightarrow> StrategyResult \<times> world" where
  "getGenerationStrategy sv node inputs basePrompt w =
     (let mode = or_default (NodeData.generationMode (data node)) ''DEFAULT''
      in if mode = ''CHARACTER_REF'' then processCharacterRef sv node inputs basePrompt w
         else if mode = ''FIRST_LAST_FRAME'' then processFrameWeaver sv node inputs basePrompt w
         else if mode = ''CUT'' then processSceneDirector sv node inputs basePrompt w
         else if mode = ''CONTINUE'' then processStoryContinuator sv node inputs basePrompt w
         else processDefaultVideoGen sv node inputs basePrompt w)"

section \<open>The service layer: errors and retry\<close>

text \<open>\<open>getErrorMessage\<close>: the first truthy of the message, the nested message, the JSON text.\<close>

definition getErrorMessage :: "js_error \<Rightarrow> string" where
  "getErrorMessage error =
     (case error of
        Nullish \<Rightarrow> ''Unknown error''
      | ThrownString s \<Rightarrow> if s = [] then ''Unknown error'' else s
      | ThrownObject obj \<Rightarrow> or_default (message obj) (or_default (nestedMessage obj) (json obj)))"

text \<open>\<open>toLowerCase\<close> and \<open>toUpperCase\<close>, on the ASCII letters.\<close>

definition toLowerCase :: "string \<Rightarrow> string" where
  "toLowerCase s =
     map (\<lambda>c. if 65 \<le> (of_char c :: nat) \<and> (of_char c :: nat) \<le> 90
               then char_of ((of_char c :: nat) + 32) else c) s"

definition toUpperCase :: "string \<Rightarrow> string" where
  "toUpperCase s =
     map (\<lambda>c. if 97 \<le> (of_char c :: nat) \<and> (of_char c :: nat) \<le> 122
               then char_of ((of_char c :: nat) - 32) else c) s"

text \<open>
  The classification in the \<open>catch\<close> clause of \<open>retryWithBackoff\<close>. Reading
  \<open>error.status\<close> of \<open>undefined\<close> or \<open>null\<close> throws a \<open>TypeError\<close>, which leaves the
  function; a string has no \<open>status\<close> or \<open>code\<close>.
\<close>

definition typeError :: js_error where
  "typeError = newError ''Cannot read properties of undefined (reading status)''"

definition isOverloaded :: "js_error \<Rightarrow> js_error + bool" where
  "isOverloaded error =
     (let msg = toLowerCase (getErrorMessage error)
      in case error of
           Nullish \<Rightarrow> Inl typeError
         | ThrownString s \<Rightarrow> Inr (str_includes msg ''overloaded'' \<or> str_includes msg ''503'')
         | ThrownObject obj \<Rightarrow>
             Inr (status obj = Some 503 \<or> code obj = Some 503 \<or> str_includes msg ''overloaded''
                  \<or> str_includes msg ''503'' \<or> status obj = Some 429 \<or> code obj = Some 429))"

definition wait :: "nat \<Rightarrow> world \<Rightarrow> world" where
  "wait ms w = w @ [Waited ms]"

text \<open>
  An asynchronous operation maps the world to its settled outcome and the world after
  it; \<open>None\<close> when it never settles.
\<close>

type_synonym 'a async = "world \<Rightarrow> ((js_error + 'a) \<times> world) option"

text \<open>
  The \<open>for\<close> loop of \<open>retryWithBackoff\<close>, from attempt index \<open>i\<close> with the current
  \<open>lastError\<close>; \<open>retryWithBackoff\<close> enters it at \<open>i = 0\<close> with \<open>lastError\<close> undefined.
\<close>

function retryLoop :: "'a async \<Rightarrow> nat \<Rightarrow> nat \<Rightarrow> nat \<Rightarrow> js_error \<Rightarrow> 'a async" where
  "retryLoop operation maxRetries baseDelay i lastError w =
     (if i < maxRetries
      then (case operation w of
              None \<Rightarrow> None
            | Some (Inr v, w1) \<Rightarrow> Some (Inr v, w1)
            | Some (Inl error, w1) \<Rightarrow>
                (case isOverloaded error of
                   Inl thrown \<Rightarrow> Some (Inl thrown, w1)
                 | Inr overloaded \<Rightarrow>
                     if overloaded \<and> i < maxRetries - 1
                     then retryLoop operation maxRetries baseDelay (i + 1) error
                            (wait (baseDelay * 2 ^ i) w1)
                     else Some (Inl error, w1)))
      else Some (Inl lastError, w))"
  by pat_completeness auto
termination
  by (relation "measure (\<lambda>(operation, maxRetries, baseDelay, i, lastError, w). maxRetries - i)") auto

declare retryLoop.simps [simp del]

definition retryWithBackoff :: "'a async \<Rightarrow> nat \<Rightarrow> nat \<Rightarrow> 'a async" where
  "retryWithBackoff operation maxRetries baseDelay w =
     retryLoop operation maxRetries baseDelay 0 Nullish w"

section \<open>The service layer: audio helpers\<close>

text \<open>
  The browser's \<open>btoa\<close> and \<open>atob\<close>: base64 with the standard alphabet and padding;
  \<open>atob\<close> ignores ASCII whitespace, accepts missing padding and throws on any other
  character or on a length of 1 modulo 4. A binary string is a list of 8-bit characters.
\<close>

definition base64Alphabet :: string where
  "base64Alphabet = ''ABCDEFGHIJKLMNOPQRSTUVWXYZabcdefghijklmnopqrstuvwxyz0123456789+/''"

definition sextet :: "nat \<Rightarrow> char" where
  "sextet n = base64Alphabet ! n"

fun btoa_groups :: "nat list \<Rightarrow> string" where
  "btoa_groups (a # b # c # rest) =
     sextet (a div 4) # sextet ((a mod 4) * 16 + b div 16) # sextet ((b mod 16) * 4 + c div 64)
       # sextet (c mod 64) # btoa_groups rest"
| "btoa_groups [a, b] =
     [sextet (a div 4), sextet ((a mod 4) * 16 + b div 16), sextet ((b mod 16) * 4), CHR ''='']"
| "btoa_groups [a] = [sextet (a div 4), sextet ((a mod 4) * 16), CHR ''='', CHR ''='']"
| "btoa_groups [] = []"

definition btoa :: "string \<Rightarrow> string" where
  "btoa binary = btoa_groups (map of_char binary)"

definition sextetOf :: "char \<Rightarrow> nat option" where
  "sextetOf c =
     (let n = (of_char c :: nat)
      in if 65 \<le> n \<and> n \<le> 90 then Some (n - 65)
         else if 97 \<le> n \<and> n \<le> 122 then Some (n - 71)
         else if 48 \<le> n \<and> n \<le> 57 then Some (n + 4)
         else if n = 43 then Some 62
         else if n = 47 then Some 63
         else None)"

fun atob_groups :: "nat list \<Rightarrow> nat list" where
  "atob_groups (a # b # c # d # rest) =
     (a * 4 + b div 16) # ((b mod 16) * 16 + c div 4) # ((c mod 4) * 64 + d) # atob_groups rest"
| "atob_groups [a, b, c] = [a * 4 + b div 16, (b mod 16) * 16 + c div 4]"
| "atob_groups [a, b] = [a * 4 + b div 16]"
| "atob_groups [a] = []"
| "atob_groups [] = []"

definition invalidCharacterError :: js_error where
  "invalidCharacterError = newError ''The string to be decoded is not correctly encoded.''"

definition stripPadding :: "string \<Rightarrow> string" where
  "stripPadding s =
     (if length s mod 4 = 0
      then (if 2 \<le> length s \<and> drop (length s - 2) s = ''=='' then take (length s - 2) s
            else if 1 \<le> length s \<and> drop (length s - 1) s = ''='' then take (length s - 1) s
            else s)
      else s)"

definition atob :: "string \<Rightarrow> js_error + string" where
  "atob encoded =
     (let s = stripPadding (filter (\<lambda>c. (of_char c :: nat) \<notin> {9, 10, 12, 13, 32}) encoded)
      in if length s mod 4 = 1 then Inl invalidCharacterError
         else (case those (map sextetOf s) of
                 None \<Rightarrow> Inl invalidCharacterError
               | Some sextets \<Rightarrow> Inr (map char_of (atob_groups sextets))))"

text \<open>
  A \<open>Uint8Array\<close> is a list of bytes. \<open>DataView\<close> writes: \<open>setUint8\<close> at consecutive
  offsets for \<open>writeString\<close>; \<open>setUint32\<close> and \<open>setUint16\<close> little-endian (every call
  in the source passes \<open>true\<close>), the value reduced modulo the width. All offsets in the
  source are literals inside the 44-byte header.
\<close>

fun writeString :: "8 word list \<Rightarrow> nat \<Rightarrow> string \<Rightarrow> 8 word list" where
  "writeString view offset [] = view"
| "writeString view offset (c # cs) = writeString (view[offset := of_char c]) (offset + 1) cs"

definition setUint32 :: "8 word list \<Rightarrow> nat \<Rightarrow> nat \<Rightarrow> 8 word list" where
  "setUint32 view offset v =
     (let x = (of_nat v :: 32 word)
      in view[offset := ucast x, offset + 1 := ucast (drop_bit 8 x),
              offset + 2 := ucast (drop_bit 16 x), offset + 3 := ucast (drop_bit 24 x)])"

definition setUint16 :: "8 word list \<Rightarrow> nat \<Rightarrow> nat \<Rightarrow> 8 word list" where
  "setUint16 view offset v =
     (let x = (of_nat v :: 16 word)
      in view[offset := ucast x, offset + 1 := ucast (drop_bit 8 x)])"

definition base64ToUint8Array :: "string \<Rightarrow> js_error + 8 word list" where
  "base64ToUint8Array base64 =
     (case atob base64 of Inl e \<Rightarrow> Inl e | Inr binaryString \<Rightarrow> Inr (map of_char binaryString))"

text \<open>The first loop of \<open>combineBase64Chunks\<close>: decoding stops at the first chunk that throws.\<close>

fun decodeChunks :: "string list \<Rightarrow> js_error + 8 word list list" where
  "decodeChunks [] = Inr []"
| "decodeChunks (chunk # chunks) =
     (case base64ToUint8Array chunk of
        Inl e \<Rightarrow> Inl e
      | Inr arr \<Rightarrow> (case decodeChunks chunks of Inl e \<Rightarrow> Inl e | Inr arrays \<Rightarrow> Inr (arr # arrays)))"

definition wavHeader :: "nat \<Rightarrow> nat \<Rightarrow> 8 word list" where
  "wavHeader totalLength sampleRate =
     (let channels = 1; bitDepth = 16;
          v0 = replicate 44 0;
          v1 = writeString v0 0 ''RIFF'';
          v2 = setUint32 v1 4 (36 + totalLength);
          v3 = writeString v2 8 ''WAVE'';
          v4 = writeString v3 12 ''fmt '';
          v5 = setUint32 v4 16 16;
          v6 = setUint16 v5 20 1;
          v7 = setUint16 v6 22 channels;
          v8 = setUint32 v7 24 sampleRate;
          v9 = setUint32 v8 28 (sampleRate * channels * (bitDepth div 8));
          v10 = setUint16 v9 32 (channels * (bitDepth div 8));
          v11 = setUint16 v10 34 bitDepth;
          v12 = writeString v11 36 ''data''
      in setUint32 v12 40 totalLength)"

text \<open>The last loop: \<open>String.fromCharCode\<close> over slices of 8192 bytes.\<close>

function fromCharCodes :: "8 word list \<Rightarrow> nat \<Rightarrow> string" where
  "fromCharCodes wavFile i =
     (if i < length wavFile
      then map (\<lambda>b. char_of (unat b)) (take 8192 (drop i wavFile)) @ fromCharCodes wavFile (i + 8192)
      else [])"
  by pat_completeness auto
termination
  by (relation "measure (\<lambda>(wavFile, i). length wavFile - i)") auto

declare fromCharCodes.simps [simp del]

definition combineBase64Chunks :: "string list \<Rightarrow> nat \<Rightarrow> js_error + string" where
  "combineBase64Chunks chunks sampleRate =
     (case decodeChunks chunks of
        Inl e \<Rightarrow> Inl e
      | Inr arrays \<Rightarrow>
          (let totalLength = sum_list (map length arrays);
               merged = concat arrays;
               wavFile = wavHeader totalLength sampleRate @ merged
           in Inr (''data:audio/wav;base64,'' @ btoa (fromCharCodes wavFile 0))))"

definition pcmToWav :: "string \<Rightarrow> nat \<Rightarrow> js_error + string" where
  "pcmToWav base64PCM sampleRate = combineBase64Chunks [base64PCM] sampleRate"

section \<open>The service layer: the platform\<close>

text \<open>
  What the service layer calls outside the repository, as parameters. The constructor
  of the SDK client may throw (\<open>Some\<close> of the thrown value) and makes no remote call.
  Each remote method maps the trace so far and its request to the settled outcome;
  \<open>sendMessage\<close> yields \<open>result.text\<close>. \<open>loadImageAsPng\<close> is the image element and
  canvas round trip of \<open>convertImageToCompatibleFormat\<close>: the PNG data URL, or the
  rejection of its promise. When several operations run at once, each suspended at an
  \<open>await\<close>, the platform decides which of the awaited promises settles next:
  \<open>settleOrder t\<close> is, for the \<open>t\<close>-th settlement, the position of that promise among
  the pending ones in launch order (taken modulo their number). Every order of
  settlements is some such function.
\<close>

record Platform =
  newGoogleGenAI :: "string option \<Rightarrow> js_error option"
  sendMessage :: "world \<Rightarrow> string \<Rightarrow> SystemInstruction \<Rightarrow> ChatHistory \<Rightarrow> string \<Rightarrow> js_error + string option"
  generateContent :: "world \<Rightarrow> string \<Rightarrow> Part list \<Rightarrow> ContentConfig \<Rightarrow> js_error + GenerateContentResponse"
  generateVideos :: "world \<Rightarrow> string \<Rightarrow> VideoInputs \<Rightarrow> VideoConfig \<Rightarrow> js_error + VideoOperation"
  getVideosOperation :: "world \<Rightarrow> VideoOperation \<Rightarrow> js_error + VideoOperation"
  loadImageAsPng :: "world \<Rightarrow> string \<Rightarrow> js_error + string"
  settleOrder :: "nat \<Rightarrow> nat"

text \<open>
  \<open>getClient\<close>, with \<open>process.env.API_KEY\<close> as the parameter \<open>apiKey\<close>: \<open>Some\<close> of
  what it throws, \<open>None\<close> when it returns a client.
\<close>

definition missingKeyError :: js_error where
  "missingKeyError =
     newError ''API Key is missing. Please select a paid API key via the Google AI Studio button.''"

definition getClient :: "Platform \<Rightarrow> string option \<Rightarrow> js_error option" where
  "getClient pf apiKey = (if \<not> truthy apiKey then Some missingKeyError else newGoogleGenAI pf apiKey)"

section \<open>The service layer: chat, image and audio generation\<close>

definition sendChatMessage ::
  "Platform \<Rightarrow> string option \<Rightarrow> ChatHistory \<Rightarrow> string \<Rightarrow> ChatOptions option \<Rightarrow> world
     \<Rightarrow> (js_error + string) \<times> world" where
  "sendChatMessage pf apiKey history newMessage options w =
     (case getClient pf apiKey of
        Some e \<Rightarrow> (Inl e, w)
      | None \<Rightarrow>
          (let flag = (\<lambda>f. case options of None \<Rightarrow> False | Some opts \<Rightarrow> f opts);
               modelName = (if flag isThinkingMode then ''gemini-3-pro-preview''
                            else ''gemini-3-flash-preview'');
               systemInstruction = (if flag isStoryboard then STORYBOARD_INSTRUCTION
                                    else if flag isHelpMeWrite then HELP_ME_WRITE_INSTRUCTION
                                    else SYSTEM_INSTRUCTION);
               w1 = w @ [ChatSendMessage modelName systemInstruction history newMessage]
           in case sendMessage pf w modelName systemInstruction history newMessage of
                Inl e \<Rightarrow> (Inl e, w1)
              | Inr answer \<Rightarrow> (Inr (or_default answer ''No response''), w1)))"

text \<open>
  The regular expression \<open>/^data:image\/\w+;base64,/\<close>: the matched subtype and the rest
  of the string after the match.
\<close>

definition isWordChar :: "char \<Rightarrow> bool" where
  "isWordChar c =
     (let n = (of_char c :: nat)
      in (65 \<le> n \<and> n \<le> 90) \<or> (97 \<le> n \<and> n \<le> 122) \<or> (48 \<le> n \<and> n \<le> 57) \<or> n = 95)"

definition matchImageDataUri :: "string \<Rightarrow> (string \<times> string) option" where
  "matchImageDataUri s =
     (if startsWith s ''data:image/''
      then (let afterSlash = drop 11 s;
                subtype = takeWhile isWordChar afterSlash;
                afterType = dropWhile isWordChar afterSlash
            in if subtype \<noteq> [] \<and> startsWith afterType '';base64,''
               then Some (subtype, drop 8 afterType) else None)
      else None)"

text \<open>The request part of one input image: the cleaned base64 text and its MIME type.\<close>

definition imagePart :: "string \<Rightarrow> Part" where
  "imagePart base64 =
     (case matchImageDataUri base64 of
        None \<Rightarrow> InlinePart base64 ''image/png''
      | Some (subtype, cleanBase64) \<Rightarrow> InlinePart cleanBase64 (''image/'' @ subtype))"

definition imageSize :: "string option \<Rightarrow> string" where
  "imageSize res =
     (case res of
        None \<Rightarrow> ''1K''
      | Some r \<Rightarrow> if toUpperCase r = ''1K'' then ''1K''
                  else if toUpperCase r = ''2K'' then ''2K''
                  else if toUpperCase r = ''4K'' then ''4K'' else ''1K'')"

text \<open>The data URIs of the inline images of a response, in order.\<close>

primrec responseImages :: "ResponsePart list \<Rightarrow> string list" where
  "responseImages [] = []"
| "responseImages (part # rest) =
     (case inlineData part of
        None \<Rightarrow> responseImages rest
      | Some inline \<Rightarrow>
          (case data' inline of
             None \<Rightarrow> responseImages rest
           | Some d \<Rightarrow>
               if d = [] then responseImages rest
               else (''data:'' @ or_default (mimeType inline) ''image/png'' @ '';base64,'' @ d)
                      # responseImages rest))"

definition generateImageFromText ::
  "Platform \<Rightarrow> string option \<Rightarrow> string \<Rightarrow> string \<Rightarrow> string list \<Rightarrow> ImageOptions \<Rightarrow> world
     \<Rightarrow> (js_error + string list) \<times> world" where
  "generateImageFromText pf apiKey promptText model inputImages options w =
     (case getClient pf apiKey of
        Some e \<Rightarrow> (Inl e, w)
      | None \<Rightarrow>
          (let effectiveModel = (if str_includes model ''imagen'' then ''imagen-4.0-generate-001''
                                 else ''gemini-2.5-flash-image'');
               parts = map imagePart inputImages @ [TextPart promptText];
               config = ImageConfig (or_default (ImageOptions.aspectRatio options) ''1:1'')
                          (imageSize (ImageOptions.resolution options));
               w1 = w @ [GenerateContent effectiveModel parts config]
           in case generateContent pf w effectiveModel parts config of
                Inl e \<Rightarrow> (Inl (newError (getErrorMessage e)), w1)
              | Inr response \<Rightarrow>
                  (let images = (case candidateParts response of
                                   None \<Rightarrow> []
                                 | Some ps \<Rightarrow> responseImages ps)
                   in if images = []
                      then (Inl (newError (getErrorMessage
                              (newError ''No images generated. Safety filter might have been triggered.''))),
                            w1)
                      else (Inr images, w1))))"

definition generateAudio ::
  "Platform \<Rightarrow> string option \<Rightarrow> string \<Rightarrow> string option \<Rightarrow> string option \<Rightarrow> world
     \<Rightarrow> (js_error + string) \<times> world" where
  "generateAudio pf apiKey promptText referenceAudio personaLabel w =
     (case getClient pf apiKey of
        Some e \<Rightarrow> (Inl e, w)
      | None \<Rightarrow>
          (let parts = [TextPart promptText];
               voiceName = (if personaLabel = Some ''Deep Narrative'' then ''Kore'' else ''Puck'');
               w1 = w @ [GenerateContent ''gemini-2.5-flash-preview-tts'' parts (SpeechConfig voiceName)]
           in case generateContent pf w ''gemini-2.5-flash-preview-tts'' parts (SpeechConfig voiceName) of
                Inl e \<Rightarrow> (Inl e, w1)
              | Inr response \<Rightarrow>
                  (case (case candidateParts response of
                           None \<Rightarrow> None
                         | Some [] \<Rightarrow> None
                         | Some (part # _) \<Rightarrow>
                             (case inlineData part of None \<Rightarrow> None | Some inline \<Rightarrow> data' inline))
                   of None \<Rightarrow> (Inl (newError ''Audio generation failed''), w1)
                    | Some audioData \<Rightarrow>
                        if audioData = [] then (Inl (newError ''Audio generation failed''), w1)
                        else (pcmToWav audioData 24000, w1))))"

section \<open>The service layer: video generation\<close>

text \<open>
  \<open>convertImageToCompatibleFormat\<close>: a PNG or JPEG data URI passes through, split into
  MIME type and data; anything else goes through the image element and canvas, and the
  prefix of the PNG data URL is removed if it is there.
\<close>

definition stripPrefix :: "string \<Rightarrow> string \<Rightarrow> string option" where
  "stripPrefix pre s = (if startsWith s pre then Some (drop (length pre) s) else None)"

definition convertImageToCompatibleFormat ::
  "Platform \<Rightarrow> string \<Rightarrow> world \<Rightarrow> (js_error + CompatImage) \<times> world" where
  "convertImageToCompatibleFormat pf base64Str w =
     (case stripPrefix ''data:image/png;base64,'' base64Str of
        Some d \<Rightarrow> (Inr \<lparr>compatData = d, compatMimeType = ''image/png'', fullDataUri = base64Str\<rparr>, w)
      | None \<Rightarrow>
     (case stripPrefix ''data:image/jpeg;base64,'' base64Str of
        Some d \<Rightarrow> (Inr \<lparr>compatData = d, compatMimeType = ''image/jpeg'', fullDataUri = base64Str\<rparr>, w)
      | None \<Rightarrow>
     (case stripPrefix ''data:image/jpg;base64,'' base64Str of
        Some d \<Rightarrow> (Inr \<lparr>compatData = d, compatMimeType = ''image/jpg'', fullDataUri = base64Str\<rparr>, w)
      | None \<Rightarrow>
          (case loadImageAsPng pf w base64Str of
             Inl e \<Rightarrow> (Inl e, w @ [LoadImage base64Str])
           | Inr pngDataUrl \<Rightarrow>
               (Inr \<lparr>compatData = (case stripPrefix ''data:image/png;base64,'' pngDataUrl of
                                     Some d \<Rightarrow> d | None \<Rightarrow> pngDataUrl),
                      compatMimeType = ''image/png'', fullDataUri = pngDataUrl\<rparr>,
                w @ [LoadImage base64Str])))))"

definition qualitySuffix :: string where
  "qualitySuffix =
     '', cinematic lighting, highly detailed, photorealistic, 4k, smooth motion, professional color grading''"

definition asVideoImage :: "CompatImage \<Rightarrow> VideoImage" where
  "asVideoImage c = \<lparr>imageBytes = compatData c, imageMimeType = compatMimeType c\<rparr>"

text \<open>
  The preparation of \<open>inputs\<close> and \<open>config\<close>. In the first-and-last-frame branch a
  failed conversion leaves \<open>generateVideo\<close>; in the image-to-video branch it is caught
  and the request goes without an image.
\<close>

definition prepareVideoRequest ::
  "Platform \<Rightarrow> string \<Rightarrow> VideoOptions \<Rightarrow> string option \<Rightarrow> string option \<Rightarrow> string list option
     \<Rightarrow> world \<Rightarrow> (js_error + VideoInputs \<times> VideoConfig) \<times> world" where
  "prepareVideoRequest pf enhancedPrompt options inputImageBase64 videoInputArg referenceImagesArg w =
     (let inputs = \<lparr>promptField = enhancedPrompt, imageField = None, videoField = None\<rparr>;
          config = \<lparr>numberOfVideos = 1,
                    aspectRatio = or_default (VideoOptions.aspectRatio options) ''16:9'',
                    resolution = or_default (VideoOptions.resolution options) ''720p'',
                    lastFrame = None\<rparr>;
          withVideo = (\<lambda>i. if truthy videoInputArg then i\<lparr>videoField := videoInputArg\<rparr> else i);
          frames = (case referenceImagesArg of None \<Rightarrow> [] | Some imgs \<Rightarrow> imgs)
      in if VideoOptions.generationMode options = Some ''FIRST_LAST_FRAME'' \<and> 2 \<le> length frames
         then (case convertImageToCompatibleFormat pf (frames ! 0) w of
                 (Inl e, w1) \<Rightarrow> (Inl e, w1)
               | (Inr startImg, w1) \<Rightarrow>
                   (case convertImageToCompatibleFormat pf (frames ! (length frames - 1)) w1 of
                      (Inl e, w2) \<Rightarrow> (Inl e, w2)
                    | (Inr endImg, w2) \<Rightarrow>
                        (Inr (withVideo (inputs\<lparr>imageField := Some (asVideoImage startImg)\<rparr>),
                              config\<lparr>lastFrame := Some (asVideoImage endImg)\<rparr>), w2)))
         else (case inputImageBase64 of
                 None \<Rightarrow> (Inr (withVideo inputs, config), w)
               | Some img \<Rightarrow>
                   if img = [] then (Inr (withVideo inputs, config), w)
                   else (case convertImageToCompatibleFormat pf img w of
                           (Inl e, w1) \<Rightarrow> (Inr (withVideo inputs, config), w1)
                         | (Inr converted, w1) \<Rightarrow>
                             (Inr (withVideo (inputs\<lparr>imageField := Some (asVideoImage converted)\<rparr>),
                                   config), w1))))"

text \<open>
  The polling loop \<open>while (!op.done)\<close>. Nothing in the source bounds it, so it takes
  fuel: one unit for each round of waiting 10 seconds and asking again, and \<open>None\<close>
  when the fuel runs out before the operation reports completion.
\<close>

fun pollUntilDone :: "nat \<Rightarrow> Platform \<Rightarrow> VideoOperation \<Rightarrow> VideoOperation async" where
  "pollUntilDone 0 pf operation w = (if isDone operation then Some (Inr operation, w) else None)"
| "pollUntilDone (Suc fuel) pf operation w =
     (if isDone operation then Some (Inr operation, w)
      else (let w1 = wait 10000 w
            in case getVideosOperation pf w1 operation of
                 Inl e \<Rightarrow> Some (Inl e, w1 @ [GetVideosOperation operation])
               | Inr next \<Rightarrow> pollUntilDone fuel pf next (w1 @ [GetVideosOperation operation])))"

text \<open>The operation handed to \<open>retryWithBackoff\<close>: a fresh client, the request, the polling.\<close>

definition videoOperation ::
  "nat \<Rightarrow> Platform \<Rightarrow> string option \<Rightarrow> string \<Rightarrow> VideoInputs \<Rightarrow> VideoConfig \<Rightarrow> VideoOperation async" where
  "videoOperation fuel pf apiKey model inputs config w =
     (case newGoogleGenAI pf apiKey of
        Some e \<Rightarrow> Some (Inl e, w)
      | None \<Rightarrow>
          (case generateVideos pf w model inputs config of
             Inl e \<Rightarrow> Some (Inl e, w @ [GenerateVideos model inputs config])
           | Inr operation \<Rightarrow> pollUntilDone fuel pf operation (w @ [GenerateVideos model inputs config])))"

text \<open>
  The fan-out. Each of its operations is one call
  \<open>retryWithBackoff(async () => { ... })\<close> with the default three attempts and base
  delay 2000, and all of them are started before any settles. An operation runs until
  its next \<open>await\<close> and is suspended there; its state between two awaits is one of:
  \<^item> \<open>AwaitingRequest i outcome\<close>: attempt \<open>i\<close> has called \<open>operation()\<close>, which has
    constructed its client and sent the \<open>generateVideos\<close> request (or whose constructor
    has thrown); \<open>outcome\<close> is what that settles with;
  \<^item> \<open>AwaitingPollTimer i rest operation\<close>: \<open>wait(10000)\<close> of the polling loop runs,
    \<open>rest\<close> is the fuel left after this round;
  \<^item> \<open>AwaitingPoll i rest outcome\<close>: the \<open>getVideosOperation\<close> request is sent;
  \<^item> \<open>AwaitingBackoff i error\<close>: \<open>wait(delay)\<close> after the overloaded \<open>error\<close> of
    attempt \<open>i\<close> runs;
  \<^item> \<open>Finished result\<close>: the promise of the operation has settled;
  \<^item> \<open>Stalled\<close>: the polling loop has used up its fuel, the promise never settles.
  A request is answered from the trace at the moment it is sent, as in \<open>videoOperation\<close>;
  the answer is delivered when the platform settles the promise. A timer is recorded
  when it is started. When the closure ends by \<open>return\<close> or \<open>throw\<close>, the \<open>await\<close> of
  \<open>retryWithBackoff\<close> around it resumes without touching the trace, so both are one step.
\<close>

datatype OperationState =
    AwaitingRequest nat "js_error + VideoOperation"
  | AwaitingPollTimer nat nat VideoOperation
  | AwaitingPoll nat nat "js_error + VideoOperation"
  | AwaitingBackoff nat js_error
  | Finished "js_error + VideoOperation"
  | Stalled

text \<open>
  The head of the \<open>for\<close> loop of \<open>retryWithBackoff\<close> at index \<open>i\<close>, up to the first
  \<open>await\<close> inside \<open>operation()\<close>.
\<close>

definition startAttempt ::
  "Platform \<Rightarrow> string option \<Rightarrow> string \<Rightarrow> VideoInputs \<Rightarrow> VideoConfig \<Rightarrow> nat \<Rightarrow> js_error \<Rightarrow> world
     \<Rightarrow> OperationState \<times> world" where
  "startAttempt pf apiKey model inputs config i lastError w =
     (if i < 3
      then (case newGoogleGenAI pf apiKey of
              Some e \<Rightarrow> (AwaitingRequest i (Inl e), w)
            | None \<Rightarrow>
                (AwaitingRequest i (generateVideos pf w model inputs config),
                 w @ [GenerateVideos model inputs config]))
      else (Finished (Inl lastError), w))"

text \<open>The \<open>catch\<close> clause of \<open>retryWithBackoff\<close> at index \<open>i\<close>, up to its \<open>await wait(delay)\<close>.\<close>

definition catchAttempt :: "nat \<Rightarrow> js_error \<Rightarrow> world \<Rightarrow> OperationState \<times> world" where
  "catchAttempt i error w =
     (case isOverloaded error of
        Inl thrown \<Rightarrow> (Finished (Inl thrown), w)
      | Inr overloaded \<Rightarrow>
          if overloaded \<and> i < 3 - 1 then (AwaitingBackoff i error, wait (2000 * 2 ^ i) w)
          else (Finished (Inl error), w))"

text \<open>The test \<open>while (!op.done)\<close>, up to the \<open>await wait(10000)\<close> of the loop body.\<close>

definition pollOrReturn :: "nat \<Rightarrow> nat \<Rightarrow> VideoOperation \<Rightarrow> world \<Rightarrow> OperationState \<times> world" where
  "pollOrReturn i fuel operation w =
     (if isDone operation then (Finished (Inr operation), w)
      else (case fuel of
              0 \<Rightarrow> (Stalled, w)
            | Suc rest \<Rightarrow> (AwaitingPollTimer i rest operation, wait 10000 w)))"

text \<open>
  The awaited promise of a suspended operation settles: the operation runs on to its
  next \<open>await\<close>, or to its end. Every attempt polls with the full \<open>fuel\<close>.
\<close>

fun resume ::
  "nat \<Rightarrow> Platform \<Rightarrow> string option \<Rightarrow> string \<Rightarrow> VideoInputs \<Rightarrow> VideoConfig \<Rightarrow> OperationState \<Rightarrow> world
     \<Rightarrow> OperationState \<times> world" where
  "resume fuel pf apiKey model inputs config (AwaitingRequest i outcome) w =
     (case outcome of
        Inl e \<Rightarrow> catchAttempt i e w
      | Inr operation \<Rightarrow> pollOrReturn i fuel operation w)"
| "resume fuel pf apiKey model inputs config (AwaitingPollTimer i rest operation) w =
     (AwaitingPoll i rest (getVideosOperation pf w operation), w @ [GetVideosOperation operation])"
| "resume fuel pf apiKey model inputs config (AwaitingPoll i rest outcome) w =
     (case outcome of
        Inl e \<Rightarrow> catchAttempt i e w
      | Inr next \<Rightarrow> pollOrReturn i rest next w)"
| "resume fuel pf apiKey model inputs config (AwaitingBackoff i error) w =
     startAttempt pf apiKey model inputs config (i + 1) error w"
| "resume fuel pf apiKey model inputs config (Finished result) w = (Finished result, w)"
| "resume fuel pf apiKey model inputs config Stalled w = (Stalled, w)"

text \<open>
  The loop \<open>for (let i = 0; i < count; i++) operations.push(retryWithBackoff(...))\<close>:
  every operation is started, in order, and runs to its first \<open>await\<close>.
\<close>

fun launchAll ::
  "Platform \<Rightarrow> string option \<Rightarrow> string \<Rightarrow> VideoInputs \<Rightarrow> VideoConfig \<Rightarrow> nat \<Rightarrow> world
     \<Rightarrow> OperationState list \<times> world" where
  "launchAll pf apiKey model inputs config 0 w = ([], w)"
| "launchAll pf apiKey model inputs config (Suc n) w =
     (case startAttempt pf apiKey model inputs config 0 Nullish w of
        (state, w1) \<Rightarrow>
          (case launchAll pf apiKey model inputs config n w1 of
             (states, w2) \<Rightarrow> (state # states, w2)))"

fun isPending :: "OperationState \<Rightarrow> bool" where
  "isPending (Finished result) = False"
| "isPending Stalled = False"
| "isPending state = True"

fun settledResult :: "OperationState \<Rightarrow> (js_error + VideoOperation) option" where
  "settledResult (Finished result) = Some result"
| "settledResult state = None"

definition pendingIndices :: "OperationState list \<Rightarrow> nat list" where
  "pendingIndices states = filter (\<lambda>k. isPending (states ! k)) [0..<length states]"

text \<open>
  \<open>await Promise.allSettled(operations)\<close>: as long as an operation is pending, the
  platform settles the promise one of them awaits, and that operation runs on. The
  first argument bounds the number of settlements, \<open>t\<close> counts them.
\<close>

fun settleLoop ::
  "nat \<Rightarrow> nat \<Rightarrow> nat \<Rightarrow> Platform \<Rightarrow> string option \<Rightarrow> string \<Rightarrow> VideoInputs \<Rightarrow> VideoConfig
     \<Rightarrow> OperationState list \<Rightarrow> world \<Rightarrow> OperationState list \<times> world" where
  "settleLoop 0 t fuel pf apiKey model inputs config states w = (states, w)"
| "settleLoop (Suc budget) t fuel pf apiKey model inputs config states w =
     (case pendingIndices states of
        [] \<Rightarrow> (states, w)
      | first # others \<Rightarrow>
          (let k = (first # others) ! (settleOrder pf t mod length (first # others))
           in case resume fuel pf apiKey model inputs config (states ! k) w of
                (state, w1) \<Rightarrow>
                  settleLoop budget (Suc t) fuel pf apiKey model inputs config
                    (states[k := state]) w1))"

text \<open>
  The fan-out of \<open>n\<close> operations and the join: the outcomes in launch order, or \<open>None\<close>
  when an operation never settles. An operation is resumed at most \<open>6 * fuel + 5\<close>
  times (three attempts, each with one answer to its request and \<open>fuel\<close> rounds of
  timer and poll, and two backoff timers), which bounds the loop.
\<close>

definition settleAll ::
  "nat \<Rightarrow> Platform \<Rightarrow> string option \<Rightarrow> string \<Rightarrow> VideoInputs \<Rightarrow> VideoConfig \<Rightarrow> nat \<Rightarrow> world
     \<Rightarrow> ((js_error + VideoOperation) list \<times> world) option" where
  "settleAll fuel pf apiKey model inputs config n w =
     (case launchAll pf apiKey model inputs config n w of
        (states, w1) \<Rightarrow>
          (case settleLoop (n * (6 * fuel + 6)) 0 fuel pf apiKey model inputs config states w1 of
             (final, w2) \<Rightarrow>
               (case those (map settledResult final) of
                  None \<Rightarrow> None
                | Some results \<Rightarrow> Some (results, w2))))"

text \<open>
  A bound on the number of times an operation in a given state is still resumed:
  \<open>laterAttempts fuel i\<close> covers the attempts after attempt \<open>i\<close>, each with its backoff
  timer, the answer to its request and \<open>fuel\<close> rounds of timer and poll.
\<close>

definition laterAttempts :: "nat \<Rightarrow> nat \<Rightarrow> nat" where
  "laterAttempts fuel i = (2 - i) * (2 * fuel + 2)"

fun remainingSteps :: "nat \<Rightarrow> OperationState \<Rightarrow> nat" where
  "remainingSteps fuel (AwaitingRequest i outcome) = laterAttempts fuel i + 2 * fuel + 2"
| "remainingSteps fuel (AwaitingPollTimer i rest operation) = laterAttempts fuel i + 2 * rest + 3"
| "remainingSteps fuel (AwaitingPoll i rest outcome) = laterAttempts fuel i + 2 * rest + 2"
| "remainingSteps fuel (AwaitingBackoff i error) = laterAttempts fuel i + 1"
| "remainingSteps fuel (Finished result) = 0"
| "remainingSteps fuel Stalled = 0"

text \<open>
  What a suspended operation settles with when it alone runs on from the trace \<open>w\<close>,
  in terms of \<open>retryWithBackoff\<close>'s loop, the operation handed to it and its polling
  loop: \<open>afterCatch\<close> continues from the \<open>catch\<close> clause of attempt \<open>i\<close>, \<open>afterPolling\<close>
  from the end of the polling loop of attempt \<open>i\<close>.
\<close>

definition afterCatch ::
  "nat \<Rightarrow> Platform \<Rightarrow> string option \<Rightarrow> string \<Rightarrow> VideoInputs \<Rightarrow> VideoConfig \<Rightarrow> nat \<Rightarrow> js_error
     \<Rightarrow> VideoOperation async" where
  "afterCatch fuel pf apiKey model inputs config i error w =
     (case isOverloaded error of
        Inl thrown \<Rightarrow> Some (Inl thrown, w)
      | Inr overloaded \<Rightarrow>
          if overloaded \<and> i < 3 - 1
          then retryLoop (videoOperation fuel pf apiKey model inputs config) 3 2000 (i + 1) error
                 (wait (2000 * 2 ^ i) w)
          else Some (Inl error, w))"

definition afterPolling ::
  "nat \<Rightarrow> Platform \<Rightarrow> string option \<Rightarrow> string \<Rightarrow> VideoInputs \<Rightarrow> VideoConfig \<Rightarrow> nat
     \<Rightarrow> ((js_error + VideoOperation) \<times> world) option
     \<Rightarrow> ((js_error + VideoOperation) \<times> world) option" where
  "afterPolling fuel pf apiKey model inputs config i polled =
     (case polled of
        None \<Rightarrow> None
      | Some (Inr v, w1) \<Rightarrow> Some (Inr v, w1)
      | Some (Inl error, w1) \<Rightarrow> afterCatch fuel pf apiKey model inputs config i error w1)"

fun completion ::
  "nat \<Rightarrow> Platform \<Rightarrow> string option \<Rightarrow> string \<Rightarrow> VideoInputs \<Rightarrow> VideoConfig \<Rightarrow> OperationState
     \<Rightarrow> VideoOperation async" where
  "completion fuel pf apiKey model inputs config (AwaitingRequest i outcome) w =
     (case outcome of
        Inl e \<Rightarrow> afterCatch fuel pf apiKey model inputs config i e w
      | Inr operation \<Rightarrow>
          afterPolling fuel pf apiKey model inputs config i (pollUntilDone fuel pf operation w))"
| "completion fuel pf apiKey model inputs config (AwaitingPollTimer i rest operation) w =
     afterPolling fuel pf apiKey model inputs config i
       (case getVideosOperation pf w operation of
          Inl e \<Rightarrow> Some (Inl e, w @ [GetVideosOperation operation])
        | Inr next \<Rightarrow> pollUntilDone rest pf next (w @ [GetVideosOperation operation]))"
| "completion fuel pf apiKey model inputs config (AwaitingPoll i rest outcome) w =
     (case outcome of
        Inl e \<Rightarrow> afterCatch fuel pf apiKey model inputs config i e w
      | Inr next \<Rightarrow>
          afterPolling fuel pf apiKey model inputs config i (pollUntilDone rest pf next w))"
| "completion fuel pf apiKey model inputs config (AwaitingBackoff i error) w =
     retryLoop (videoOperation fuel pf apiKey model inputs config) 3 2000 (i + 1) error w"
| "completion fuel pf apiKey model inputs config (Finished result) w = Some (result, w)"
| "completion fuel pf apiKey model inputs config Stalled w = None"

text \<open>
  The loop over the settled results: the URI of every fulfilled operation that has one,
  with the key appended, paired with its video object. \<open>keyText\<close> is the API key as the
  template literal prints it.
\<close>

definition keyText :: "string option \<Rightarrow> string" where
  "keyText apiKey = (case apiKey of None \<Rightarrow> ''undefined'' | Some k \<Rightarrow> k)"

primrec validVideos :: "string option \<Rightarrow> (js_error + VideoOperation) list \<Rightarrow> (string \<times> Video) list" where
  "validVideos apiKey [] = []"
| "validVideos apiKey (res # results) =
     (case res of
        Inl reason \<Rightarrow> validVideos apiKey results
      | Inr operation \<Rightarrow>
          (case generatedVideo operation of
             None \<Rightarrow> validVideos apiKey results
           | Some vid \<Rightarrow>
               (case Video.uri vid of
                  None \<Rightarrow> validVideos apiKey results
                | Some u \<Rightarrow>
                    if u = [] then validVideos apiKey results
                    else (u @ ''&key='' @ keyText apiKey, vid) # validVideos apiKey results)))"


text \<open>\<open>firstError?.reason || new Error("Video generation failed.")\<close>.\<close>

definition fanOutError :: "(js_error + VideoOperation) list \<Rightarrow> js_error" where
  "fanOutError results =
     (case find isl results of
        Some (Inl reason) \<Rightarrow>
          if reason = Nullish \<or> reason = ThrownString [] then newError ''Video generation failed.''
          else reason
      | _ \<Rightarrow> newError ''Video generation failed.'')"

definition videoCount :: "VideoOptions \<Rightarrow> nat" where
  "videoCount options = (case VideoOptions.count options of None \<Rightarrow> 1 | Some c \<Rightarrow> if c = 0 then 1 else c)"

definition generateVideo ::
  "nat \<Rightarrow> Platform \<Rightarrow> string option \<Rightarrow> string \<Rightarrow> string \<Rightarrow> VideoOptions \<Rightarrow> string option
     \<Rightarrow> string option \<Rightarrow> string list option \<Rightarrow> VideoResult async" where
  "generateVideo fuel pf apiKey promptText model options inputImageBase64 videoInputArg referenceImagesArg w =
     (case newGoogleGenAI pf apiKey of
        Some e \<Rightarrow> Some (Inl e, w)
      | None \<Rightarrow>
          (let enhancedPrompt = promptText @ qualitySuffix
           in case prepareVideoRequest pf enhancedPrompt options inputImageBase64 videoInputArg
                     referenceImagesArg w of
                (Inl e, w1) \<Rightarrow> Some (Inl e, w1)
              | (Inr (inputs, config), w1) \<Rightarrow>
                  (case settleAll fuel pf apiKey model inputs config (videoCount options) w1 of
                     None \<Rightarrow> None
                   | Some (results, w2) \<Rightarrow>
                       (case validVideos apiKey results of
                          (primary, vid) # others \<Rightarrow>
                            Some (Inr \<lparr>uri = Some primary, isFallbackImage = Some False,
                                       videoMetadata = Some vid,
                                       uris = Some (primary # map fst others)\<rparr>, w2)
                        | [] \<Rightarrow>
                            (case generateImageFromText pf apiKey
                                    (''Cinematic movie still, '' @ enhancedPrompt)
                                    ''gemini-2.5-flash-image'' []
                                    \<lparr>aspectRatio = VideoOptions.aspectRatio options,
                                     resolution = None, count = None\<rparr> w2 of
                               (Inr imgs, w3) \<Rightarrow>
                                 Some (Inr \<lparr>uri = (case imgs of [] \<Rightarrow> None | first # _ \<Rightarrow> Some first),
                                            isFallbackImage = Some True, videoMetadata = None,
                                            uris = None\<rparr>, w3)
                             | (Inl imgErr, w3) \<Rightarrow>
                                 Some (Inl (newError (''Video generation failed: ''
                                              @ getErrorMessage (fanOutError results))), w3))))))"

section \<open>Concrete inputs\<close>

text \<open>
  Fixed inputs on which the theorems below are instantiated and the model is run: an
  environment of the strategy module in which the video helpers succeed and prompt
  bridging and restoration fail, and a node with given image, cropped frame, video and
  mode.
\<close>

definition exampleServices :: Services where
  "exampleServices = \<lparr>
     urlToBase64 = (\<lambda>w url. Inr ''data:video/mp4;base64,AAAA''),
     extractLastFrame = (\<lambda>w src. Inr ''data:image/png;base64,LAST''),
     analyzeVideo = (\<lambda>w vid question model. Inr ''film noir''),
     orchestrateVideoPrompt = (\<lambda>w images userPrompt. Inl (newError ''The model is overloaded'')),
     generateImageFromText = (\<lambda>w p model images opts. Inl (newError ''No images generated''))\<rparr>"

definition exampleNode ::
  "string option \<Rightarrow> string option \<Rightarrow> string option \<Rightarrow> string option \<Rightarrow> AppNode" where
  "exampleNode img crop vid mode =
     \<lparr>data = \<lparr>image' = img, croppedFrame = crop, videoUri = vid, videoMetadata = False,
               generationMode = mode, aspectRatio = None\<rparr>\<rparr>"

text \<open>
  A platform whose client constructor accepts every key, whose \<open>k\<close>-th video request
  (counting the earlier ones in the trace) is answered by \<open>videoAnswers k\<close>, whose
  content requests return one inline part, whose polling reports completion, and which
  always settles the promise of the pending operation launched first.
\<close>

fun isVideoRequest :: "event \<Rightarrow> bool" where
  "isVideoRequest (GenerateVideos model inputs config) = True"
| "isVideoRequest e = False"

definition examplePlatform :: "(nat \<Rightarrow> js_error + VideoOperation) \<Rightarrow> Platform" where
  "examplePlatform videoAnswers = \<lparr>
     newGoogleGenAI = (\<lambda>apiKey. None),
     sendMessage = (\<lambda>w model instruction history msg. Inr (Some ''Hello'')),
     generateContent = (\<lambda>w model parts config.
        Inr \<lparr>candidateParts = Some [\<lparr>inlineData = Some \<lparr>data' = Some ''AQI='', mimeType = None\<rparr>\<rparr>]\<rparr>),
     generateVideos = (\<lambda>w model inputs config. videoAnswers (length (filter isVideoRequest w))),
     getVideosOperation = (\<lambda>w operation. Inr (operation\<lparr>isDone := True\<rparr>)),
     loadImageAsPng = (\<lambda>w src. Inl (newError ''Image conversion failed for Veo compatibility'')),
     settleOrder = (\<lambda>t. 0)\<rparr>"

definition remoteError :: "int \<Rightarrow> string \<Rightarrow> js_error" where
  "remoteError st msg = ThrownObject \<lparr>status = Some st, code = None, message = Some msg,
     nestedMessage = None, json = ''{}''\<rparr>"

definition finishedVideo :: "string \<Rightarrow> VideoOperation" where
  "finishedVideo u = \<lparr>isDone = True, generatedVideo = Some \<lparr>Video.uri = Some u\<rparr>\<rparr>"

definition exampleRequest :: "VideoInputs \<times> VideoConfig" where
  "exampleRequest =
     (\<lparr>promptField = ''a cat'' @ qualitySuffix, imageField = None, videoField = None\<rparr>,
      \<lparr>numberOfVideos = 1, aspectRatio = ''16:9'', resolution = ''720p'', lastFrame = None\<rparr>)"

definition exampleOptions :: "nat option \<Rightarrow> VideoOptions" where
  "exampleOptions n =
     \<lparr>VideoOptions.aspectRatio = None, count = n, generationMode = None, resolution = None\<rparr>"

text \<open>
  One video request, and the operation that \<open>generateVideo\<close> hands to
  \<open>retryWithBackoff\<close> for it, on the platform above.
\<close>

definition exampleEvent :: event where
  "exampleEvent = GenerateVideos ''veo'' (fst exampleRequest) (snd exampleRequest)"

definition exampleOperation :: "(nat \<Rightarrow> js_error + VideoOperation) \<Rightarrow> VideoOperation async" where
  "exampleOperation videoAnswers =
     videoOperation 0 (examplePlatform videoAnswers) (Some ''KEY'') ''veo''
       (fst exampleRequest) (snd exampleRequest)"

text \<open>Little-endian reads of a byte list, as \<open>DataView.getUint32\<close> and \<open>getUint16\<close> do them.\<close>

definition getUint16 :: "8 word list \<Rightarrow> nat \<Rightarrow> nat" where
  "getUint16 view offset = unat (view ! offset) + 256 * unat (view ! (offset + 1))"

definition getUint32 :: "8 word list \<Rightarrow> nat \<Rightarrow> nat" where
  "getUint32 view offset =
     unat (view ! offset) + 256 * unat (view ! (offset + 1))
       + 65536 * unat (view ! (offset + 2)) + 16777216 * unat (view ! (offset + 3))"

section \<open>Properties of the strategy module\<close>

lemmas strategy_defs = processDefaultVideoGen_def processStoryContinuator_def
  processFrameWeaver_def processSceneDirector_def processCharacterRef_def

lemma strategy_modes:
  "generationMode (fst (processDefaultVideoGen sv node inputs p w)) = ''DEFAULT''"
  "generationMode (fst (processStoryContinuator sv node inputs p w)) = ''CONTINUE''"
  "generationMode (fst (processFrameWeaver sv node inputs p w)) = ''FIRST_LAST_FRAME''"
  "generationMode (fst (processSceneDirector sv node inputs p w)) = ''CUT''"
  "generationMode (fst (processCharacterRef sv node inputs p w)) = ''CHARACTER_REF''"
  by (simp_all add: strategy_defs Let_def split: prod.split)

lemma strategy_referenceImages:
  "referenceImages (fst (processDefaultVideoGen sv node inputs p w)) = None"
  "referenceImages (fst (processStoryContinuator sv node inputs p w)) = None"
  "referenceImages (fst (processFrameWeaver sv node inputs p w)) = Some (collectInputImages inputs)"
  "referenceImages (fst (processSceneDirector sv node inputs p w)) = None"
  "referenceImages (fst (processCharacterRef sv node inputs p w)) = None"
  by (simp_all add: strategy_defs Let_def split: prod.split)

lemma strategy_videoInput:
  "videoInput (fst (processDefaultVideoGen sv node inputs p w)) = None"
  "videoInput (fst (processStoryContinuator sv node inputs p w)) = None"
  "videoInput (fst (processFrameWeaver sv node inputs p w)) = None"
  "videoInput (fst (processSceneDirector sv node inputs p w)) = None"
  "videoInput (fst (processCharacterRef sv node inputs p w)) = None"
  by (simp_all add: strategy_defs Let_def split: prod.split)

lemma getGenerationStrategy_cases:
  "getGenerationStrategy sv node inputs p w \<in>
     {processDefaultVideoGen sv node inputs p w, processStoryContinuator sv node inputs p w,
      processFrameWeaver sv node inputs p w, processSceneDirector sv node inputs p w,
      processCharacterRef sv node inputs p w}"
  by (simp add: getGenerationStrategy_def Let_def)

text \<open>
  C1. The dispatcher is a total function of the node's mode tag: each of the five tags
  \<open>DEFAULT\<close>, \<open>CONTINUE\<close>, \<open>FIRST_LAST_FRAME\<close>, \<open>CUT\<close>, \<open>CHARACTER_REF\<close> selects its
  strategy, and every other tag, the empty tag and an absent tag select the Default
  strategy. The selection reads nothing but the tag and cannot fail: the result is the
  result of the selected strategy, whose type has no error.
\<close>

theorem getGenerationStrategy_dispatch:
  "(NodeData.generationMode (data node) = Some ''DEFAULT'' \<longrightarrow>
      getGenerationStrategy sv node inputs p w = processDefaultVideoGen sv node inputs p w)
 \<and> (NodeData.generationMode (data node) = Some ''CONTINUE'' \<longrightarrow>
      getGenerationStrategy sv node inputs p w = processStoryContinuator sv node inputs p w)
 \<and> (NodeData.generationMode (data node) = Some ''FIRST_LAST_FRAME'' \<longrightarrow>
      getGenerationStrategy sv node inputs p w = processFrameWeaver sv node inputs p w)
 \<and> (NodeData.generationMode (data node) = Some ''CUT'' \<longrightarrow>
      getGenerationStrategy sv node inputs p w = processSceneDirector sv node inputs p w)
 \<and> (NodeData.generationMode (data node) = Some ''CHARACTER_REF'' \<longrightarrow>
      getGenerationStrategy sv node inputs p w = processCharacterRef sv node inputs p w)
 \<and> (NodeData.generationMode (data node) \<notin>
        {Some ''CONTINUE'', Some ''FIRST_LAST_FRAME'', Some ''CUT'', Some ''CHARACTER_REF''} \<longrightarrow>
      getGenerationStrategy sv node inputs p w = processDefaultVideoGen sv node inputs p w)"
  by (cases "NodeData.generationMode (data node)")
     (simp_all add: getGenerationStrategy_def or_default_def)

theorem getGenerationStrategy_dispatch_witness:
  "getGenerationStrategy exampleServices (exampleNode None None None (Some ''DEFAULT''))
     [exampleNode (Some ''IMG'') None (Some ''http://v'') None] ''a cat'' []
   = processDefaultVideoGen exampleServices (exampleNode None None None (Some ''DEFAULT''))
       [exampleNode (Some ''IMG'') None (Some ''http://v'') None] ''a cat'' []
 \<and> getGenerationStrategy exampleServices (exampleNode None None None (Some ''CONTINUE''))
     [exampleNode (Some ''IMG'') None (Some ''http://v'') None] ''a cat'' []
   = processStoryContinuator exampleServices (exampleNode None None None (Some ''CONTINUE''))
       [exampleNode (Some ''IMG'') None (Some ''http://v'') None] ''a cat'' []
 \<and> getGenerationStrategy exampleServices (exampleNode None None None (Some ''FIRST_LAST_FRAME''))
     [exampleNode (Some ''IMG'') None (Some ''http://v'') None] ''a cat'' []
   = processFrameWeaver exampleServices (exampleNode None None None (Some ''FIRST_LAST_FRAME''))
       [exampleNode (Some ''IMG'') None (Some ''http://v'') None] ''a cat'' []
 \<and> getGenerationStrategy exampleServices (exampleNode None None None (Some ''CUT''))
     [exampleNode (Some ''IMG'') None (Some ''http://v'') None] ''a cat'' []
   = processSceneDirector exampleServices (exampleNode None None None (Some ''CUT''))
       [exampleNode (Some ''IMG'') None (Some ''http://v'') None] ''a cat'' []
 \<and> getGenerationStrategy exampleServices (exampleNode None None None (Some ''CHARACTER_REF''))
     [exampleNode (Some ''IMG'') None (Some ''http://v'') None] ''a cat'' []
   = processCharacterRef exampleServices (exampleNode None None None (Some ''CHARACTER_REF''))
       [exampleNode (Some ''IMG'') None (Some ''http://v'') None] ''a cat'' []
 \<and> getGenerationStrategy exampleServices (exampleNode None None None None)
     [exampleNode (Some ''IMG'') None (Some ''http://v'') None] ''a cat'' []
   = processDefaultVideoGen exampleServices (exampleNode None None None None)
       [exampleNode (Some ''IMG'') None (Some ''http://v'') None] ''a cat'' []
 \<and> getGenerationStrategy exampleServices (exampleNode None None None (Some ''ZOOM''))
     [exampleNode (Some ''IMG'') None (Some ''http://v'') None] ''a cat'' []
   = processDefaultVideoGen exampleServices (exampleNode None None None (Some ''ZOOM''))
       [exampleNode (Some ''IMG'') None (Some ''http://v'') None] ''a cat'' []
 \<and> fst (getGenerationStrategy exampleServices (exampleNode None None None (Some ''CUT''))
     [exampleNode (Some ''IMG'') None (Some ''http://v'') None] ''a cat'' [])
   = \<lparr>finalPrompt = ''a cat. \<newline>\<newline>Style: film noir'', videoInput = None,
      inputImageForGeneration = Some ''IMG'', referenceImages = None, generationMode = ''CUT''\<rparr>"
proof -
  let ?ins = "[exampleNode (Some ''IMG'') None (Some ''http://v'') None]"
  have run: "fst (processSceneDirector exampleServices (exampleNode None None None (Some ''CUT''))
               ?ins ''a cat'' [])
      = \<lparr>finalPrompt = ''a cat. \<newline>\<newline>Style: film noir'', videoInput = None,
         inputImageForGeneration = Some ''IMG'', referenceImages = None, generationMode = ''CUT''\<rparr>"
    by (simp add: processSceneDirector_def describeFirstVideo_def describeVideo_def
          inlineIfRemote_def await_urlToBase64_def await_analyzeVideo_def restoreImage_def
          await_generateImageFromText_def selectSceneImage_def exampleServices_def
          exampleNode_def truthy_def)
  show ?thesis
    using getGenerationStrategy_dispatch
            [of "exampleNode None None None (Some ''DEFAULT'')" exampleServices ?ins "''a cat''" "[]"]
          getGenerationStrategy_dispatch
            [of "exampleNode None None None (Some ''CONTINUE'')" exampleServices ?ins "''a cat''" "[]"]
          getGenerationStrategy_dispatch
            [of "exampleNode None None None (Some ''FIRST_LAST_FRAME'')" exampleServices ?ins "''a cat''" "[]"]
          getGenerationStrategy_dispatch
            [of "exampleNode None None None (Some ''CUT'')" exampleServices ?ins "''a cat''" "[]"]
          getGenerationStrategy_dispatch
            [of "exampleNode None None None (Some ''CHARACTER_REF'')" exampleServices ?ins "''a cat''" "[]"]
          getGenerationStrategy_dispatch
            [of "exampleNode None None None None" exampleServices ?ins "''a cat''" "[]"]
          getGenerationStrategy_dispatch
            [of "exampleNode None None None (Some ''ZOOM'')" exampleServices ?ins "''a cat''" "[]"]
          run
    by (simp add: exampleNode_def)
qed

text \<open>
  C4. Whichever of the five strategies produced a result, directly or through the
  dispatcher: its \<open>referenceImages\<close> is defined only if its \<open>generationMode\<close> is
  \<open>FIRST_LAST_FRAME\<close>, and it is undefined for the modes \<open>DEFAULT\<close>, \<open>CONTINUE\<close>,
  \<open>CUT\<close> and \<open>CHARACTER_REF\<close>.
\<close>

theorem referenceImages_only_for_FIRST_LAST_FRAME:
  assumes "r \<in> {fst (processDefaultVideoGen sv node inputs p w),
               fst (processStoryContinuator sv node inputs p w),
               fst (processFrameWeaver sv node inputs p w),
               fst (processSceneDirector sv node inputs p w),
               fst (processCharacterRef sv node inputs p w),
               fst (getGenerationStrategy sv node inputs p w)}"
  shows "(referenceImages r \<noteq> None \<longrightarrow> generationMode r = ''FIRST_LAST_FRAME'')
       \<and> (generationMode r \<in> {''DEFAULT'', ''CONTINUE'', ''CUT'', ''CHARACTER_REF''} \<longrightarrow>
            referenceImages r = None)"
proof -
  from assms getGenerationStrategy_cases [of sv node inputs p w]
  consider "r = fst (processDefaultVideoGen sv node inputs p w)"
    | "r = fst (processStoryContinuator sv node inputs p w)"
    | "r = fst (processFrameWeaver sv node inputs p w)"
    | "r = fst (processSceneDirector sv node inputs p w)"
    | "r = fst (processCharacterRef sv node inputs p w)"
    by auto
  then show ?thesis
    by cases (simp_all add: strategy_modes strategy_referenceImages)
qed

theorem referenceImages_only_for_FIRST_LAST_FRAME_witness:
  "referenceImages (fst (processFrameWeaver exampleServices (exampleNode None None None None)
       [exampleNode (Some ''IMG'') None None None, exampleNode None (Some ''CROP'') None None]
       ''a cat'' [])) = Some [''IMG'', ''CROP'']
 \<and> generationMode (fst (processFrameWeaver exampleServices (exampleNode None None None None)
       [exampleNode (Some ''IMG'') None None None, exampleNode None (Some ''CROP'') None None]
       ''a cat'' [])) = ''FIRST_LAST_FRAME''
 \<and> generationMode (fst (processCharacterRef exampleServices (exampleNode None None None None)
       [exampleNode (Some ''IMG'') None None None, exampleNode None (Some ''CROP'') None None]
       ''a cat'' [])) = ''CHARACTER_REF''
 \<and> referenceImages (fst (processCharacterRef exampleServices (exampleNode None None None None)
       [exampleNode (Some ''IMG'') None None None, exampleNode None (Some ''CROP'') None None]
       ''a cat'' [])) = None"
proof -
  let ?n = "exampleNode None None None None"
  let ?ins = "[exampleNode (Some ''IMG'') None None None, exampleNode None (Some ''CROP'') None None]"
  have weaver: "referenceImages (fst (processFrameWeaver exampleServices ?n ?ins ''a cat'' []))
      = Some [''IMG'', ''CROP'']"
    by (simp add: strategy_referenceImages exampleNode_def js_or_def truthy_def)
  have mode: "generationMode (fst (processCharacterRef exampleServices ?n ?ins ''a cat'' []))
      = ''CHARACTER_REF''"
    by (simp add: strategy_modes)
  show ?thesis
    using referenceImages_only_for_FIRST_LAST_FRAME
            [of "fst (processFrameWeaver exampleServices ?n ?ins ''a cat'' [])"
                exampleServices ?n ?ins "''a cat''" "[]"]
          referenceImages_only_for_FIRST_LAST_FRAME
            [of "fst (processCharacterRef exampleServices ?n ?ins ''a cat'' [])"
                exampleServices ?n ?ins "''a cat''" "[]"]
          weaver mode
    by simp
qed

text \<open>
  C10. The \<open>videoInput\<close> of the result of each of the five strategies, and of the
  dispatcher, is \<open>null\<close>, whatever the node, the upstream inputs (with or without a
  video reference), the prompt and the behaviour of the imported services.
\<close>

theorem videoInput_always_null:
  "videoInput (fst (processDefaultVideoGen sv node inputs p w)) = None
 \<and> videoInput (fst (processStoryContinuator sv node inputs p w)) = None
 \<and> videoInput (fst (processFrameWeaver sv node inputs p w)) = None
 \<and> videoInput (fst (processSceneDirector sv node inputs p w)) = None
 \<and> videoInput (fst (processCharacterRef sv node inputs p w)) = None
 \<and> videoInput (fst (getGenerationStrategy sv node inputs p w)) = None"
  using getGenerationStrategy_cases [of sv node inputs p w]
  by (auto simp add: strategy_videoInput)

text \<open>
  C5. FrameWeaver calls prompt bridging exactly when it has collected at least two
  images, and then once, on the first and the last of them. With exactly one collected
  image it makes no call at all, returns the base prompt and a \<open>referenceImages\<close> of
  that one image. With two collected images and a bridging call that fails it returns
  the base prompt unchanged and both images; the failure does not leave the strategy.
\<close>

theorem processFrameWeaver_bridging:
  "(collectInputImages inputs = [a] \<longrightarrow>
      processFrameWeaver sv node inputs p w =
        (\<lparr>finalPrompt = p, videoInput = None, inputImageForGeneration = Some a,
          referenceImages = Some [a], generationMode = ''FIRST_LAST_FRAME''\<rparr>, w))
 \<and> (collectInputImages inputs = [a, b] \<and> orchestrateVideoPrompt sv w [a, b] p = Inl e \<longrightarrow>
      processFrameWeaver sv node inputs p w =
        (\<lparr>finalPrompt = p, videoInput = None, inputImageForGeneration = Some a,
          referenceImages = Some [a, b], generationMode = ''FIRST_LAST_FRAME''\<rparr>,
         w @ [CallOrchestrateVideoPrompt [a, b] p]))
 \<and> snd (processFrameWeaver sv node inputs p w) =
      w @ (if 2 \<le> length (collectInputImages inputs)
           then [CallOrchestrateVideoPrompt
                   [hd (collectInputImages inputs), last (collectInputImages inputs)] p]
           else [])"
proof -
  have nth: "xs ! 0 = hd xs \<and> xs ! (length xs - Suc 0) = last xs"
    if "2 \<le> length xs" for xs :: "string list"
    using that by (cases xs) (auto simp add: last_conv_nth)
  show ?thesis
    by (auto simp add: processFrameWeaver_def await_orchestrateVideoPrompt_def Let_def nth
          split: prod.split sum.split)
qed

theorem processFrameWeaver_bridging_witness:
  "processFrameWeaver exampleServices (exampleNode None None None (Some ''FIRST_LAST_FRAME''))
     [exampleNode None None (Some ''http://v'') None, exampleNode (Some ''IMG'') None None None]
     ''a cat'' []
   = (\<lparr>finalPrompt = ''a cat'', videoInput = None, inputImageForGeneration = Some ''IMG'',
       referenceImages = Some [''IMG''], generationMode = ''FIRST_LAST_FRAME''\<rparr>, [])
 \<and> processFrameWeaver exampleServices (exampleNode None None None (Some ''FIRST_LAST_FRAME''))
     [exampleNode (Some ''IMG'') None None None, exampleNode (Some ''IMG2'') (Some ''CROP'') None None]
     ''a cat'' []
   = (\<lparr>finalPrompt = ''a cat'', videoInput = None, inputImageForGeneration = Some ''IMG'',
       referenceImages = Some [''IMG'', ''CROP''], generationMode = ''FIRST_LAST_FRAME''\<rparr>,
      [CallOrchestrateVideoPrompt [''IMG'', ''CROP''] ''a cat''])"
proof -
  let ?n = "exampleNode None None None (Some ''FIRST_LAST_FRAME'')"
  let ?one = "[exampleNode None None (Some ''http://v'') None, exampleNode (Some ''IMG'') None None None]"
  let ?two = "[exampleNode (Some ''IMG'') None None None, exampleNode (Some ''IMG2'') (Some ''CROP'') None None]"
  have one: "collectInputImages ?one = [''IMG'']"
    by (simp add: exampleNode_def js_or_def truthy_def)
  have two: "collectInputImages ?two = [''IMG'', ''CROP'']"
    by (simp add: exampleNode_def js_or_def truthy_def)
  have fails: "orchestrateVideoPrompt exampleServices [] [''IMG'', ''CROP''] ''a cat''
      = Inl (newError ''The model is overloaded'')"
    by (simp add: exampleServices_def)
  show ?thesis
    using processFrameWeaver_bridging
            [of ?one "''IMG''" exampleServices ?n "''a cat''" "[]"]
          processFrameWeaver_bridging
            [of ?two "''IMG''" exampleServices ?n "''a cat''" "[]" "''CROP''"
                "newError ''The model is overloaded''"]
          one two fails
    by simp
qed

lemma find_videoUri_cong:
  assumes "map (videoUri \<circ> data) xs = map (videoUri \<circ> data) ys"
  shows "map_option (videoUri \<circ> data) (find (\<lambda>n. truthy (videoUri (data n))) xs)
       = map_option (videoUri \<circ> data) (find (\<lambda>n. truthy (videoUri (data n))) ys)"
proof -
  from assms have "length xs = length ys" by (rule map_eq_imp_length_eq)
  then show ?thesis using assms
    by (induction xs ys rule: list_induct2) simp_all
qed

lemma describeFirstVideo_cong:
  assumes "map (videoUri \<circ> data) inputs' = map (videoUri \<circ> data) inputs"
  shows "describeFirstVideo sv inputs' q w = describeFirstVideo sv inputs q w"
proof -
  have "map_option (videoUri \<circ> data) (find (\<lambda>n. truthy (videoUri (data n))) inputs')
      = map_option (videoUri \<circ> data) (find (\<lambda>n. truthy (videoUri (data n))) inputs)"
    by (rule find_videoUri_cong [OF assms])
  then show ?thesis
    by (auto simp add: describeFirstVideo_def split: option.splits)
qed

text \<open>
  C6, as the code has it. In SceneDirector a node whose own cropped frame is set
  selects that frame: it is the image handed to the restoration pass, and the images
  and cropped frames of the upstream inputs have no influence on the result (two input
  lists with the same video references give the same result and the same calls). The
  Default strategy never reads the node itself: its seed is, for the first upstream
  input that has a cropped frame or an image, the cropped frame if set and the image
  otherwise.
\<close>

theorem own_cropped_frame_precedence:
  "(truthy (croppedFrame (data node)) \<longrightarrow>
      selectSceneImage node inputs = croppedFrame (data node)
    \<and> inputImageForGeneration (fst (processSceneDirector sv node inputs p w)) =
        fst (restoreImage sv node p (croppedFrame (data node))
               (snd (describeFirstVideo sv inputs ''Analyze the visual style briefly.'' w)))
    \<and> (map (videoUri \<circ> data) inputs' = map (videoUri \<circ> data) inputs \<longrightarrow>
         processSceneDirector sv node inputs' p w = processSceneDirector sv node inputs p w))
 \<and> processDefaultVideoGen sv node' inputs p w = processDefaultVideoGen sv node inputs p w
 \<and> inputImageForGeneration (fst (processDefaultVideoGen sv node inputs p w)) =
      (case find (\<lambda>n. truthy (image' (data n)) \<or> truthy (croppedFrame (data n))) inputs of
         None \<Rightarrow> None
       | Some n \<Rightarrow> if truthy (croppedFrame (data n)) then croppedFrame (data n) else image' (data n))"
proof -
  have sel: "selectSceneImage node inputs = croppedFrame (data node)"
    if "truthy (croppedFrame (data node))" for inputs
    using that by (simp add: selectSceneImage_def)
  have scene: "processSceneDirector sv node inputs' p w = processSceneDirector sv node inputs p w"
    if "truthy (croppedFrame (data node))"
      and "map (videoUri \<circ> data) inputs' = map (videoUri \<circ> data) inputs"
    using that describeFirstVideo_cong [of inputs' inputs sv "''Analyze the visual style briefly.''" w]
    by (simp add: processSceneDirector_def sel)
  have seed: "inputImageForGeneration (fst (processSceneDirector sv node inputs p w)) =
        fst (restoreImage sv node p (croppedFrame (data node))
               (snd (describeFirstVideo sv inputs ''Analyze the visual style briefly.'' w)))"
    if "truthy (croppedFrame (data node))"
    using that by (simp add: processSceneDirector_def sel split: prod.split)
  have dflt: "inputImageForGeneration (fst (processDefaultVideoGen sv node inputs p w)) =
      (case find (\<lambda>n. truthy (image' (data n)) \<or> truthy (croppedFrame (data n))) inputs of
         None \<Rightarrow> None
       | Some n \<Rightarrow> if truthy (croppedFrame (data n)) then croppedFrame (data n) else image' (data n))"
  proof (cases "find (\<lambda>n. truthy (image' (data n)) \<or> truthy (croppedFrame (data n))) inputs")
    case None
    then show ?thesis by (simp add: processDefaultVideoGen_def)
  next
    case (Some n)
    then have "truthy (image' (data n)) \<or> truthy (croppedFrame (data n))"
      by (auto simp add: find_Some_iff)
    with Some show ?thesis
      by (auto simp add: processDefaultVideoGen_def js_or_def)
  qed
  have indep: "processDefaultVideoGen sv node' inputs p w = processDefaultVideoGen sv node inputs p w"
    by (simp add: processDefaultVideoGen_def)
  show ?thesis
  proof (intro conjI impI)
    assume t: "truthy (croppedFrame (data node))"
    show "selectSceneImage node inputs = croppedFrame (data node)" by (rule sel [OF t])
    show "inputImageForGeneration (fst (processSceneDirector sv node inputs p w)) =
        fst (restoreImage sv node p (croppedFrame (data node))
               (snd (describeFirstVideo sv inputs ''Analyze the visual style briefly.'' w)))"
      by (rule seed [OF t])
    show "processSceneDirector sv node inputs' p w = processSceneDirector sv node inputs p w"
      if "map (videoUri \<circ> data) inputs' = map (videoUri \<circ> data) inputs"
      by (rule scene [OF t that])
  next
    show "processDefaultVideoGen sv node' inputs p w = processDefaultVideoGen sv node inputs p w"
      by (rule indep)
    show "inputImageForGeneration (fst (processDefaultVideoGen sv node inputs p w)) =
      (case find (\<lambda>n. truthy (image' (data n)) \<or> truthy (croppedFrame (data n))) inputs of
         None \<Rightarrow> None
       | Some n \<Rightarrow> if truthy (croppedFrame (data n)) then croppedFrame (data n) else image' (data n))"
      by (rule dflt)
  qed
qed

theorem own_cropped_frame_precedence_witness:
  "truthy (croppedFrame (data (exampleNode (Some ''SELF'') (Some ''OWN-CROP'') None (Some ''CUT''))))
 \<and> selectSceneImage (exampleNode (Some ''SELF'') (Some ''OWN-CROP'') None (Some ''CUT''))
      [exampleNode (Some ''UP-IMG'') (Some ''UP-CROP'') (Some ''http://v'') None] = Some ''OWN-CROP''
 \<and> inputImageForGeneration (fst (processSceneDirector exampleServices
        (exampleNode (Some ''SELF'') (Some ''OWN-CROP'') None (Some ''CUT''))
        [exampleNode (Some ''UP-IMG'') (Some ''UP-CROP'') (Some ''http://v'') None] ''a cat'' []))
      = Some ''OWN-CROP''
 \<and> processSceneDirector exampleServices
        (exampleNode (Some ''SELF'') (Some ''OWN-CROP'') None (Some ''CUT''))
        [exampleNode None None (Some ''http://v'') None] ''a cat'' []
    = processSceneDirector exampleServices
        (exampleNode (Some ''SELF'') (Some ''OWN-CROP'') None (Some ''CUT''))
        [exampleNode (Some ''UP-IMG'') (Some ''UP-CROP'') (Some ''http://v'') None] ''a cat'' []"
proof -
  let ?n = "exampleNode (Some ''SELF'') (Some ''OWN-CROP'') None (Some ''CUT'')"
  let ?ins = "[exampleNode (Some ''UP-IMG'') (Some ''UP-CROP'') (Some ''http://v'') None]"
  let ?ins' = "[exampleNode None None (Some ''http://v'') None]"
  have t: "truthy (croppedFrame (data ?n))"
    by (simp add: exampleNode_def truthy_def)
  have same: "map (videoUri \<circ> data) ?ins' = map (videoUri \<circ> data) ?ins"
    by (simp add: exampleNode_def)
  have crop: "croppedFrame (data ?n) = Some ''OWN-CROP''"
    by (simp add: exampleNode_def)
  have restore: "fst (restoreImage exampleServices ?n ''a cat'' (Some ''OWN-CROP'') w) = Some ''OWN-CROP''" for w
    by (simp add: restoreImage_def await_generateImageFromText_def exampleServices_def)
  show ?thesis
    using own_cropped_frame_precedence [of ?n ?ins exampleServices "''a cat''" "[]" ?ins']
          t same crop restore
    by simp
qed

text \<open>
  C6, as the claim states it, fails for the Default strategy: a node with its own
  cropped frame and one upstream image gets the upstream image as seed.
\<close>

theorem default_ignores_own_cropped_frame:
  "truthy (croppedFrame (data (exampleNode None (Some ''OWN-CROP'') None None)))
 \<and> inputImageForGeneration (fst (processDefaultVideoGen exampleServices
        (exampleNode None (Some ''OWN-CROP'') None None)
        [exampleNode (Some ''UP-IMG'') None None None] ''a cat'' [])) = Some ''UP-IMG''
 \<and> inputImageForGeneration (fst (processDefaultVideoGen exampleServices
        (exampleNode None (Some ''OWN-CROP'') None None)
        [exampleNode (Some ''UP-IMG'') None None None] ''a cat'' []))
      \<noteq> croppedFrame (data (exampleNode None (Some ''OWN-CROP'') None None))"
  by (simp add: processDefaultVideoGen_def exampleNode_def js_or_def truthy_def)

text \<open>
  C8 on a node without upstream video and without any image: no style analysis exists,
  and the prompt SceneDirector returns still ends in the style line, with nothing after
  its label. No call is made.
\<close>

theorem sceneDirector_style_line_without_analysis:
  "processSceneDirector exampleServices (exampleNode None None None (Some ''CUT'')) [] ''a cat'' []
   = (\<lparr>finalPrompt = ''a cat. \<newline>\<newline>Style: '', videoInput = None, inputImageForGeneration = None,
       referenceImages = None, generationMode = ''CUT''\<rparr>, [])"
  by (simp add: processSceneDirector_def describeFirstVideo_def restoreImage_def
        selectSceneImage_def exampleNode_def truthy_def)

lemma sceneDirector_style_line_always:
  "\<exists>style. finalPrompt (fst (processSceneDirector sv node inputs p w)) = p @ ''. \<newline>\<newline>Style: '' @ style"
  by (simp add: processSceneDirector_def split: prod.split)

lemma restoreImage_failure_keeps_selection:
  "Services.generateImageFromText sv w
     (''Sharpen and upscale this crop to 4K cinematic quality. Preserve composition exactly. Description: ''
        @ p @ ''.'')
     ''gemini-2.5-flash-image'' [img]
     \<lparr>aspectRatio = Some (or_default (NodeData.aspectRatio (data node)) ''16:9''),
      resolution = None, count = Some 1\<rparr> = Inl e
   \<Longrightarrow> fst (restoreImage sv node p (Some img) w) = Some img"
  by (simp add: restoreImage_def await_generateImageFromText_def)

section \<open>Properties of the service layer\<close>

lemma retryLoop_unfold:
  "retryLoop operation maxRetries baseDelay i lastError w =
     (if i < maxRetries
      then (case operation w of
              None \<Rightarrow> None
            | Some (Inr v, w1) \<Rightarrow> Some (Inr v, w1)
            | Some (Inl error, w1) \<Rightarrow>
                (case isOverloaded error of
                   Inl thrown \<Rightarrow> Some (Inl thrown, w1)
                 | Inr overloaded \<Rightarrow>
                     if overloaded \<and> i < maxRetries - 1
                     then retryLoop operation maxRetries baseDelay (i + 1) error
                            (wait (baseDelay * 2 ^ i) w1)
                     else Some (Inl error, w1)))
      else Some (Inl lastError, w))"
  by (rule retryLoop.simps)

lemma retryLoop_success:
  "i < maxRetries \<Longrightarrow> operation w = Some (Inr v, w1) \<Longrightarrow>
   retryLoop operation maxRetries baseDelay i lastError w = Some (Inr v, w1)"
  by (subst retryLoop_unfold) simp

lemma retryLoop_retry:
  "Suc i < maxRetries \<Longrightarrow> operation w = Some (Inl e, w1) \<Longrightarrow> isOverloaded e = Inr True \<Longrightarrow>
   retryLoop operation maxRetries baseDelay i lastError w =
     retryLoop operation maxRetries baseDelay (Suc i) e (wait (baseDelay * 2 ^ i) w1)"
  by (subst retryLoop_unfold) auto

lemma retryLoop_give_up:
  "i < maxRetries \<Longrightarrow> operation w = Some (Inl e, w1) \<Longrightarrow> isOverloaded e = Inr b \<Longrightarrow>
   \<not> (b \<and> Suc i < maxRetries) \<Longrightarrow>
   retryLoop operation maxRetries baseDelay i lastError w = Some (Inl e, w1)"
  by (subst retryLoop_unfold) auto

lemma isOverloaded_by_status:
  "status obj = Some 503 \<or> code obj = Some 503 \<or> status obj = Some 429 \<or> code obj = Some 429
   \<Longrightarrow> isOverloaded (ThrownObject obj) = Inr True"
  by (auto simp add: isOverloaded_def)

lemma isOverloaded_by_message:
  "str_includes (toLowerCase (getErrorMessage e)) ''overloaded''
     \<or> str_includes (toLowerCase (getErrorMessage e)) ''503''
   \<Longrightarrow> e \<noteq> Nullish \<Longrightarrow> isOverloaded e = Inr True"
  by (cases e) (auto simp add: isOverloaded_def)

lemma isOverloaded_Nullish: "isOverloaded Nullish = Inl typeError"
  by (simp add: isOverloaded_def)

text \<open>
  C2. With the default parameters (three attempts, base delay 2000 ms): an operation
  that fails twice with an error classified as overloaded and then succeeds is run
  three times, after waits of 2000 ms and 4000 ms, and its value is returned; an
  operation whose first failure is classified as not overloaded is run once and that
  error is thrown without any wait; and an operation that fails three times with
  overloaded errors is run three times, with the same two waits, and its last error is
  thrown. The operation is run on the world left by the previous attempt and the wait,
  so the worlds in the hypotheses fix the number and the order of the runs.
\<close>

theorem retryWithBackoff_default_policy:
  "(operation w0 = Some (Inl e1, w1) \<and> isOverloaded e1 = Inr True
      \<and> operation (wait 2000 w1) = Some (Inl e2, w2) \<and> isOverloaded e2 = Inr True
      \<and> operation (wait 4000 w2) = Some (Inr v, w3)
    \<longrightarrow> retryWithBackoff operation 3 2000 w0 = Some (Inr v, w3))
 \<and> (operation w0 = Some (Inl e1, w1) \<and> isOverloaded e1 = Inr False
    \<longrightarrow> retryWithBackoff operation 3 2000 w0 = Some (Inl e1, w1))
 \<and> (operation w0 = Some (Inl e1, w1) \<and> isOverloaded e1 = Inr True
      \<and> operation (wait 2000 w1) = Some (Inl e2, w2) \<and> isOverloaded e2 = Inr True
      \<and> operation (wait 4000 w2) = Some (Inl e3, w3) \<and> isOverloaded e3 = Inr b
    \<longrightarrow> retryWithBackoff operation 3 2000 w0 = Some (Inl e3, w3))"
proof (intro conjI impI)
  assume "operation w0 = Some (Inl e1, w1) \<and> isOverloaded e1 = Inr True
      \<and> operation (wait 2000 w1) = Some (Inl e2, w2) \<and> isOverloaded e2 = Inr True
      \<and> operation (wait 4000 w2) = Some (Inr v, w3)"
  then have a1: "operation w0 = Some (Inl e1, w1)" and o1: "isOverloaded e1 = Inr True"
    and a2: "operation (wait 2000 w1) = Some (Inl e2, w2)" and o2: "isOverloaded e2 = Inr True"
    and a3: "operation (wait 4000 w2) = Some (Inr v, w3)"
    by simp_all
  have "retryWithBackoff operation 3 2000 w0 = retryLoop operation 3 2000 (Suc 0) e1 (wait 2000 w1)"
    using retryLoop_retry [of 0 3 operation w0 e1 w1 2000 Nullish] a1 o1
    by (simp add: retryWithBackoff_def)
  also have "\<dots> = retryLoop operation 3 2000 (Suc (Suc 0)) e2 (wait 4000 w2)"
    using retryLoop_retry [of "Suc 0" 3 operation "wait 2000 w1" e2 w2 2000 e1] a2 o2 by simp
  also have "\<dots> = Some (Inr v, w3)"
    using retryLoop_success [of "Suc (Suc 0)" 3 operation "wait 4000 w2" v w3 2000 e2] a3 by simp
  finally show "retryWithBackoff operation 3 2000 w0 = Some (Inr v, w3)" .
next
  assume "operation w0 = Some (Inl e1, w1) \<and> isOverloaded e1 = Inr False"
  then show "retryWithBackoff operation 3 2000 w0 = Some (Inl e1, w1)"
    using retryLoop_give_up [of 0 3 operation w0 e1 w1 False 2000 Nullish]
    by (simp add: retryWithBackoff_def)
next
  assume "operation w0 = Some (Inl e1, w1) \<and> isOverloaded e1 = Inr True
      \<and> operation (wait 2000 w1) = Some (Inl e2, w2) \<and> isOverloaded e2 = Inr True
      \<and> operation (wait 4000 w2) = Some (Inl e3, w3) \<and> isOverloaded e3 = Inr b"
  then have a1: "operation w0 = Some (Inl e1, w1)" and o1: "isOverloaded e1 = Inr True"
    and a2: "operation (wait 2000 w1) = Some (Inl e2, w2)" and o2: "isOverloaded e2 = Inr True"
    and a3: "operation (wait 4000 w2) = Some (Inl e3, w3)" and o3: "isOverloaded e3 = Inr b"
    by simp_all
  have "retryWithBackoff operation 3 2000 w0 = retryLoop operation 3 2000 (Suc 0) e1 (wait 2000 w1)"
    using retryLoop_retry [of 0 3 operation w0 e1 w1 2000 Nullish] a1 o1
    by (simp add: retryWithBackoff_def)
  also have "\<dots> = retryLoop operation 3 2000 (Suc (Suc 0)) e2 (wait 4000 w2)"
    using retryLoop_retry [of "Suc 0" 3 operation "wait 2000 w1" e2 w2 2000 e1] a2 o2 by simp
  also have "\<dots> = Some (Inl e3, w3)"
    using retryLoop_give_up [of "Suc (Suc 0)" 3 operation "wait 4000 w2" e3 w3 b 2000 e2] a3 o3
    by simp
  finally show "retryWithBackoff operation 3 2000 w0 = Some (Inl e3, w3)" .
qed

lemma exampleOperation_run:
  "exampleOperation videoAnswers w =
     (case videoAnswers (length (filter isVideoRequest w)) of
        Inl e \<Rightarrow> Some (Inl e, w @ [exampleEvent])
      | Inr operation \<Rightarrow> if isDone operation then Some (Inr operation, w @ [exampleEvent]) else None)"
  by (simp add: exampleOperation_def videoOperation_def examplePlatform_def exampleEvent_def
        split: sum.split)

lemma remoteError_classes:
  "isOverloaded (remoteError 503 ''Service Unavailable'') = Inr True"
  "isOverloaded (remoteError 429 ''Too many requests'') = Inr True"
  "isOverloaded (remoteError 400 ''Bad request'') = Inr False"
  by code_simp+

theorem retryWithBackoff_default_policy_witness:
  "retryWithBackoff (exampleOperation (\<lambda>k. if k < 2 then Inl (remoteError 503 ''Service Unavailable'')
                                            else Inr (finishedVideo ''https://v/1''))) 3 2000 []
   = Some (Inr (finishedVideo ''https://v/1''),
           [exampleEvent, Waited 2000, exampleEvent, Waited 4000, exampleEvent])
 \<and> retryWithBackoff (exampleOperation (\<lambda>k. Inl (remoteError 400 ''Bad request''))) 3 2000 []
   = Some (Inl (remoteError 400 ''Bad request''), [exampleEvent])
 \<and> retryWithBackoff (exampleOperation (\<lambda>k. Inl (remoteError 429 ''Too many requests''))) 3 2000 []
   = Some (Inl (remoteError 429 ''Too many requests''),
           [exampleEvent, Waited 2000, exampleEvent, Waited 4000, exampleEvent])"
proof -
  let ?flaky = "exampleOperation (\<lambda>k. if k < 2 then Inl (remoteError 503 ''Service Unavailable'')
                                        else Inr (finishedVideo ''https://v/1''))"
  let ?bad = "exampleOperation (\<lambda>k. Inl (remoteError 400 ''Bad request''))"
  let ?busy = "exampleOperation (\<lambda>k. Inl (remoteError 429 ''Too many requests''))"
  have ev: "isVideoRequest exampleEvent" by (simp add: exampleEvent_def)
  have f1: "?flaky [] = Some (Inl (remoteError 503 ''Service Unavailable''), [exampleEvent])"
    by (simp add: exampleOperation_run)
  have f2: "?flaky (wait 2000 [exampleEvent])
      = Some (Inl (remoteError 503 ''Service Unavailable''), [exampleEvent, Waited 2000, exampleEvent])"
    by (simp add: exampleOperation_run wait_def ev)
  have f3: "?flaky (wait 4000 [exampleEvent, Waited 2000, exampleEvent])
      = Some (Inr (finishedVideo ''https://v/1''),
              [exampleEvent, Waited 2000, exampleEvent, Waited 4000, exampleEvent])"
    by (simp add: exampleOperation_run wait_def ev finishedVideo_def)
  have b1: "?bad [] = Some (Inl (remoteError 400 ''Bad request''), [exampleEvent])"
    by (simp add: exampleOperation_run)
  have t1: "?busy [] = Some (Inl (remoteError 429 ''Too many requests''), [exampleEvent])"
    by (simp add: exampleOperation_run)
  have t2: "?busy (wait 2000 [exampleEvent])
      = Some (Inl (remoteError 429 ''Too many requests''), [exampleEvent, Waited 2000, exampleEvent])"
    by (simp add: exampleOperation_run wait_def)
  have t3: "?busy (wait 4000 [exampleEvent, Waited 2000, exampleEvent])
      = Some (Inl (remoteError 429 ''Too many requests''),
              [exampleEvent, Waited 2000, exampleEvent, Waited 4000, exampleEvent])"
    by (simp add: exampleOperation_run wait_def)
  show ?thesis
    using retryWithBackoff_default_policy
            [where operation = ?flaky and ?w0.0 = "[]"
               and ?e1.0 = "remoteError 503 ''Service Unavailable''" and ?w1.0 = "[exampleEvent]"
               and ?e2.0 = "remoteError 503 ''Service Unavailable''"
               and ?w2.0 = "[exampleEvent, Waited 2000, exampleEvent]"
               and v = "finishedVideo ''https://v/1''"
               and ?w3.0 = "[exampleEvent, Waited 2000, exampleEvent, Waited 4000, exampleEvent]"]
          retryWithBackoff_default_policy
            [where operation = ?bad and ?w0.0 = "[]"
               and ?e1.0 = "remoteError 400 ''Bad request''" and ?w1.0 = "[exampleEvent]"]
          retryWithBackoff_default_policy
            [where operation = ?busy and ?w0.0 = "[]"
               and ?e1.0 = "remoteError 429 ''Too many requests''" and ?w1.0 = "[exampleEvent]"
               and ?e2.0 = "remoteError 429 ''Too many requests''"
               and ?w2.0 = "[exampleEvent, Waited 2000, exampleEvent]"
               and ?e3.0 = "remoteError 429 ''Too many requests''"
               and ?w3.0 = "[exampleEvent, Waited 2000, exampleEvent, Waited 4000, exampleEvent]"
               and b = True]
          f1 f2 f3 b1 t1 t2 t3 remoteError_classes
    by simp
qed

lemma fromCharCodes_unfold:
  "fromCharCodes wavFile i =
     (if i < length wavFile
      then map (\<lambda>b. char_of (unat b)) (take 8192 (drop i wavFile)) @ fromCharCodes wavFile (i + 8192)
      else [])"
  by (rule fromCharCodes.simps)

lemma fromCharCodes_map:
  "fromCharCodes wavFile i = map (\<lambda>b. char_of (unat b)) (drop i wavFile)"
proof (induction wavFile i rule: fromCharCodes.induct)
  case (1 wavFile i)
  show ?case
  proof (cases "i < length wavFile")
    case True
    have "map (\<lambda>b. char_of (unat b)) (take 8192 (drop i wavFile))
            @ map (\<lambda>b. char_of (unat b)) (drop (i + 8192) wavFile)
        = map (\<lambda>b. char_of (unat b)) (take 8192 (drop i wavFile) @ drop 8192 (drop i wavFile))"
      by (simp add: add.commute)
    also have "\<dots> = map (\<lambda>b. char_of (unat b)) (drop i wavFile)"
      by (simp only: append_take_drop_id)
    finally show ?thesis
      using True "1.IH" by (subst fromCharCodes_unfold) simp
  next
    case False
    then show ?thesis by (subst fromCharCodes_unfold) simp
  qed
qed

lemma byte_of_char_roundtrip: "char_of (unat (of_char c :: 8 word)) = c"
proof -
  have "(of_char c :: 8 word) = of_nat (of_char c)"
    by (simp only: of_nat_of_char)
  then have "unat (of_char c :: 8 word) = (of_char c :: nat) mod 256"
    by (simp only: unat_of_nat) simp
  then show ?thesis by simp
qed

lemma replicate_44:
  "replicate 44 (0 :: 8 word) =
     [0, 0, 0, 0, 0, 0, 0, 0, 0, 0, 0, 0, 0, 0, 0, 0, 0, 0, 0, 0, 0, 0,
      0, 0, 0, 0, 0, 0, 0, 0, 0, 0, 0, 0, 0, 0, 0, 0, 0, 0, 0, 0, 0, 0]"
  by (simp add: numeral_eq_Suc)

lemma wavHeader_2_24000:
  "wavHeader 2 24000 =
     [0x52, 0x49, 0x46, 0x46, 38, 0, 0, 0, 0x57, 0x41, 0x56, 0x45, 0x66, 0x6D, 0x74, 0x20,
      16, 0, 0, 0, 1, 0, 1, 0, 0xC0, 0x5D, 0, 0, 0x80, 0xBB, 0, 0, 2, 0, 16, 0,
      0x64, 0x61, 0x74, 0x61, 2, 0, 0, 0]"
  by (simp add: wavHeader_def setUint32_def setUint16_def Let_def replicate_44)

lemma wavHeader_2_24000_chars:
  "map (\<lambda>b. char_of (unat b)) (wavHeader 2 24000) =
     [CHR ''R'', CHR ''I'', CHR ''F'', CHR ''F'', CHR 0x26, CHR 0x00, CHR 0x00, CHR 0x00,
      CHR ''W'', CHR ''A'', CHR ''V'', CHR ''E'', CHR ''f'', CHR ''m'', CHR ''t'', CHR '' '',
      CHR 0x10, CHR 0x00, CHR 0x00, CHR 0x00, CHR 0x01, CHR 0x00, CHR 0x01, CHR 0x00,
      CHR 0xC0, CHR 0x5D, CHR 0x00, CHR 0x00, CHR 0x80, CHR 0xBB, CHR 0x00, CHR 0x00,
      CHR 0x02, CHR 0x00, CHR 0x10, CHR 0x00, CHR ''d'', CHR ''a'', CHR ''t'', CHR ''a'',
      CHR 0x02, CHR 0x00, CHR 0x00, CHR 0x00]"
  by (simp add: wavHeader_2_24000 char_of_def bit_Suc_0_iff)

text \<open>
  C7. For a single chunk that decodes to the two bytes \<open>c0 c1\<close>, at sample rate 24000,
  the result is the data URI \<open>data:audio/wav;base64,\<close> followed by the base64 text of
  46 bytes: the 44-byte header written out below, then \<open>c0 c1\<close>. Read back
  little-endian, the header has ChunkSize 38, NumChannels 1, SampleRate 24000, ByteRate
  48000, BlockAlign 2, BitsPerSample 16 and Subchunk2Size 2.
\<close>

theorem combineBase64Chunks_single_sample:
  assumes "atob chunk = Inr [c0, c1]"
  shows "combineBase64Chunks [chunk] 24000 =
           Inr (''data:audio/wav;base64,''
                  @ btoa (map (\<lambda>b. char_of (unat b)) (wavHeader 2 24000) @ [c0, c1]))
       \<and> pcmToWav chunk 24000 = combineBase64Chunks [chunk] 24000
       \<and> wavHeader 2 24000 =
           [0x52, 0x49, 0x46, 0x46, 38, 0, 0, 0, 0x57, 0x41, 0x56, 0x45, 0x66, 0x6D, 0x74, 0x20,
            16, 0, 0, 0, 1, 0, 1, 0, 0xC0, 0x5D, 0, 0, 0x80, 0xBB, 0, 0, 2, 0, 16, 0,
            0x64, 0x61, 0x74, 0x61, 2, 0, 0, 0]
       \<and> length (map (\<lambda>b. char_of (unat b)) (wavHeader 2 24000) @ [c0, c1]) = 46
       \<and> getUint32 (wavHeader 2 24000) 4 = 38
       \<and> getUint16 (wavHeader 2 24000) 22 = 1
       \<and> getUint32 (wavHeader 2 24000) 24 = 24000
       \<and> getUint32 (wavHeader 2 24000) 28 = 48000
       \<and> getUint16 (wavHeader 2 24000) 32 = 2
       \<and> getUint16 (wavHeader 2 24000) 34 = 16
       \<and> getUint32 (wavHeader 2 24000) 40 = 2"
proof -
  have decoded: "decodeChunks [chunk] = Inr [[of_char c0, of_char c1]]"
    using assms by (simp add: base64ToUint8Array_def)
  have two: "wavHeader (Suc (Suc 0)) 24000 = wavHeader 2 24000"
    by (simp only: numeral_2_eq_2)
  have "combineBase64Chunks [chunk] 24000 =
          Inr (''data:audio/wav;base64,''
                 @ btoa (map (\<lambda>b. char_of (unat b)) (wavHeader 2 24000 @ [of_char c0, of_char c1])))"
    by (simp add: combineBase64Chunks_def decoded fromCharCodes_map Let_def two
          del: decodeChunks.simps)
  then have uri: "combineBase64Chunks [chunk] 24000 =
          Inr (''data:audio/wav;base64,''
                 @ btoa (map (\<lambda>b. char_of (unat b)) (wavHeader 2 24000) @ [c0, c1]))"
    by (simp add: byte_of_char_roundtrip)
  have len: "length (map (\<lambda>b. char_of (unat b)) (wavHeader 2 24000) @ [c0, c1]) = 46"
    by (simp add: wavHeader_2_24000)
  have fields: "getUint32 (wavHeader 2 24000) 4 = 38" "getUint16 (wavHeader 2 24000) 22 = 1"
    "getUint32 (wavHeader 2 24000) 24 = 24000" "getUint32 (wavHeader 2 24000) 28 = 48000"
    "getUint16 (wavHeader 2 24000) 32 = 2" "getUint16 (wavHeader 2 24000) 34 = 16"
    "getUint32 (wavHeader 2 24000) 40 = 2"
    by (simp_all add: wavHeader_2_24000 getUint32_def getUint16_def)
  show ?thesis
    using uri len fields wavHeader_2_24000 by (simp add: pcmToWav_def)
qed

theorem combineBase64Chunks_single_sample_witness:
  "atob ''AQI='' = Inr [CHR 0x01, CHR 0x02]
 \<and> combineBase64Chunks [''AQI=''] 24000 =
     Inr ''data:audio/wav;base64,UklGRiYAAABXQVZFZm10IBAAAAABAAEAwF0AAIC7AAACABAAZGF0YQIAAAABAg==''"
proof -
  have dec: "atob ''AQI='' = Inr [CHR 0x01, CHR 0x02]"
    by code_simp
  have "btoa ([CHR ''R'', CHR ''I'', CHR ''F'', CHR ''F'', CHR 0x26, CHR 0x00, CHR 0x00, CHR 0x00,
      CHR ''W'', CHR ''A'', CHR ''V'', CHR ''E'', CHR ''f'', CHR ''m'', CHR ''t'', CHR '' '',
      CHR 0x10, CHR 0x00, CHR 0x00, CHR 0x00, CHR 0x01, CHR 0x00, CHR 0x01, CHR 0x00,
      CHR 0xC0, CHR 0x5D, CHR 0x00, CHR 0x00, CHR 0x80, CHR 0xBB, CHR 0x00, CHR 0x00,
      CHR 0x02, CHR 0x00, CHR 0x10, CHR 0x00, CHR ''d'', CHR ''a'', CHR ''t'', CHR ''a'',
      CHR 0x02, CHR 0x00, CHR 0x00, CHR 0x00] @ [CHR 0x01, CHR 0x02])
      = ''UklGRiYAAABXQVZFZm10IBAAAAABAAEAwF0AAIC7AAACABAAZGF0YQIAAAABAg==''"
    by code_simp
  then have enc: "btoa (map (\<lambda>b. char_of (unat b)) (wavHeader 2 24000) @ [CHR 0x01, CHR 0x02])
      = ''UklGRiYAAABXQVZFZm10IBAAAAABAAEAwF0AAIC7AAACABAAZGF0YQIAAAABAg==''"
    by (simp only: wavHeader_2_24000_chars)
  show ?thesis
    using combineBase64Chunks_single_sample [OF dec] dec enc by simp
qed






lemma catchAttempt_decreases:
  "remainingSteps fuel (fst (catchAttempt i e w)) \<le> laterAttempts fuel i + 1"
  by (simp add: catchAttempt_def split: sum.splits)

lemma pollOrReturn_decreases:
  "remainingSteps fuel (fst (pollOrReturn i rest operation w)) \<le> laterAttempts fuel i + 2 * rest + 1"
  by (simp add: pollOrReturn_def split: nat.splits)

lemma laterAttempts_Suc: "i < 2 \<Longrightarrow> laterAttempts fuel i = laterAttempts fuel (i + 1) + 2 * fuel + 2"
proof -
  assume "i < 2"
  then have "2 - i = Suc (2 - (i + 1))" by simp
  then show ?thesis by (simp add: laterAttempts_def)
qed

lemma startAttempt_decreases:
  "remainingSteps fuel (fst (startAttempt pf apiKey model inputs config (i + 1) e w))
     \<le> laterAttempts fuel i"
proof (cases "i < 2")
  case True
  then show ?thesis
    using laterAttempts_Suc [OF True, of fuel]
    by (simp add: startAttempt_def split: option.splits)
next
  case False
  then show ?thesis by (simp add: startAttempt_def)
qed

lemma resume_decreases:
  "isPending state \<Longrightarrow>
   remainingSteps fuel (fst (resume fuel pf apiKey model inputs config state w))
     < remainingSteps fuel state"
proof (cases state)
  case (AwaitingRequest i outcome)
  show ?thesis
  proof (cases outcome)
    case (Inl e)
    then show ?thesis
      using catchAttempt_decreases [of fuel i e w] by (simp add: AwaitingRequest)
  next
    case (Inr operation)
    then show ?thesis
      using pollOrReturn_decreases [of fuel i fuel operation w] by (simp add: AwaitingRequest)
  qed
next
  case (AwaitingPollTimer i rest operation)
  then show ?thesis by simp
next
  case (AwaitingPoll i rest outcome)
  show ?thesis
  proof (cases outcome)
    case (Inl e)
    then show ?thesis
      using catchAttempt_decreases [of fuel i e w] by (simp add: AwaitingPoll)
  next
    case (Inr operation)
    then show ?thesis
      using pollOrReturn_decreases [of fuel i rest operation w] by (simp add: AwaitingPoll)
  qed
next
  case (AwaitingBackoff i e)
  then show ?thesis
    using startAttempt_decreases [of fuel pf apiKey model inputs config i e w]
    by simp
qed simp_all

lemma pending_positive: "isPending state \<Longrightarrow> 0 < remainingSteps fuel state"
  by (cases state) simp_all

lemma pendingIndices_member:
  "k \<in> set (pendingIndices states) \<longleftrightarrow> k < length states \<and> isPending (states ! k)"
  by (auto simp add: pendingIndices_def)

lemma sum_list_update_less:
  fixes xs :: "nat list"
  assumes "k < length xs" "x < xs ! k"
  shows "sum_list (xs[k := x]) < sum_list xs"
  using assms
proof (induction xs arbitrary: k)
  case Nil
  then show ?case by simp
next
  case (Cons a xs)
  then show ?case by (cases k) auto
qed

lemma settleLoop_settles:
  "sum_list (map (remainingSteps fuel) states) \<le> budget \<Longrightarrow>
   pendingIndices (fst (settleLoop budget t fuel pf apiKey model inputs config states w)) = []"
proof (induction budget arbitrary: t states w)
  case 0
  have "\<not> isPending (states ! k)" if "k < length states" for k
  proof
    assume "isPending (states ! k)"
    then have "0 < remainingSteps fuel (states ! k)" by (rule pending_positive)
    moreover have "remainingSteps fuel (states ! k) \<in> set (map (remainingSteps fuel) states)"
      using that by simp
    ultimately have "0 < sum_list (map (remainingSteps fuel) states)"
      using member_le_sum_list by fastforce
    then show False using 0 by simp
  qed
  then have "pendingIndices states = []"
    by (simp add: pendingIndices_def filter_empty_conv)
  then show ?case by simp
next
  case (Suc budget)
  show ?case
  proof (cases "pendingIndices states")
    case Nil
    then show ?thesis by simp
  next
    case (Cons first others)
    define k where "k = (first # others) ! (settleOrder pf t mod length (first # others))"
    have "settleOrder pf t mod length (first # others) < length (first # others)"
      by simp
    then have "k \<in> set (first # others)"
      unfolding k_def by (rule nth_mem)
    then have "k \<in> set (pendingIndices states)"
      by (simp only: Cons)
    then have k: "k < length states" "isPending (states ! k)"
      by (simp_all add: pendingIndices_member)
    obtain state w1 where r: "resume fuel pf apiKey model inputs config (states ! k) w = (state, w1)"
      by (cases "resume fuel pf apiKey model inputs config (states ! k) w")
    have "remainingSteps fuel state < remainingSteps fuel (states ! k)"
      using resume_decreases [OF k(2), of fuel pf apiKey model inputs config w] by (simp add: r)
    then have "sum_list ((map (remainingSteps fuel) states)[k := remainingSteps fuel state])
                 < sum_list (map (remainingSteps fuel) states)"
      using k(1) by (intro sum_list_update_less) simp_all
    then have "sum_list (map (remainingSteps fuel) (states[k := state])) \<le> budget"
      using Suc.prems by (simp add: map_update)
    then have "pendingIndices (fst (settleLoop budget (Suc t) fuel pf apiKey model inputs config
                                      (states[k := state]) w1)) = []"
      by (rule Suc.IH)
    then show ?thesis
      using Cons r by (simp add: k_def Let_def)
  qed
qed

lemma launchAll_remainingSteps:
  "sum_list (map (remainingSteps fuel) (fst (launchAll pf apiKey model inputs config n w)))
     \<le> n * (6 * fuel + 6)"
proof (induction n arbitrary: w)
  case 0
  then show ?case by simp
next
  case (Suc n)
  have "remainingSteps fuel (fst (startAttempt pf apiKey model inputs config 0 Nullish w)) \<le> 6 * fuel + 6"
    by (simp add: startAttempt_def laterAttempts_def split: option.splits)
  then show ?case
    using Suc.IH [of "snd (startAttempt pf apiKey model inputs config 0 Nullish w)"]
    by (simp add: split_beta)
qed

lemma catchAttempt_completion:
  "completion fuel pf apiKey model inputs config (fst (catchAttempt i e w)) (snd (catchAttempt i e w))
     = afterCatch fuel pf apiKey model inputs config i e w"
  by (simp add: catchAttempt_def afterCatch_def split: sum.splits)

lemma pollOrReturn_completion:
  "completion fuel pf apiKey model inputs config
     (fst (pollOrReturn i rest operation w)) (snd (pollOrReturn i rest operation w))
     = afterPolling fuel pf apiKey model inputs config i (pollUntilDone rest pf operation w)"
  by (cases rest) (simp_all add: pollOrReturn_def afterPolling_def Let_def split: sum.splits)

lemma startAttempt_completion:
  "completion fuel pf apiKey model inputs config
     (fst (startAttempt pf apiKey model inputs config i e w))
     (snd (startAttempt pf apiKey model inputs config i e w))
     = retryLoop (videoOperation fuel pf apiKey model inputs config) 3 2000 i e w"
  by (subst retryLoop_unfold)
     (simp add: startAttempt_def videoOperation_def afterCatch_def afterPolling_def
        split: option.splits sum.splits prod.splits)

lemma resume_completion:
  "completion fuel pf apiKey model inputs config
     (fst (resume fuel pf apiKey model inputs config state w))
     (snd (resume fuel pf apiKey model inputs config state w))
     = completion fuel pf apiKey model inputs config state w"
proof (cases state)
  case (AwaitingRequest i outcome)
  then show ?thesis
    by (cases outcome) (simp_all add: catchAttempt_completion pollOrReturn_completion)
next
  case (AwaitingPollTimer i rest operation)
  then show ?thesis
    by (simp add: afterPolling_def split: sum.splits)
next
  case (AwaitingPoll i rest outcome)
  then show ?thesis
    by (cases outcome) (simp_all add: catchAttempt_completion pollOrReturn_completion)
next
  case (AwaitingBackoff i e)
  then show ?thesis
    by (simp add: startAttempt_completion)
qed simp_all

lemma pendingIndices_single: "pendingIndices [state] = (if isPending state then [0] else [])"
  by (simp add: pendingIndices_def)

lemma settleLoop_single:
  "\<exists>final. fst (settleLoop budget t fuel pf apiKey model inputs config [state] w) = [final]
     \<and> completion fuel pf apiKey model inputs config final
          (snd (settleLoop budget t fuel pf apiKey model inputs config [state] w))
        = completion fuel pf apiKey model inputs config state w"
proof (induction budget arbitrary: t state w)
  case 0
  then show ?case by simp
next
  case (Suc budget)
  show ?case
  proof (cases "isPending state")
    case False
    then show ?thesis by (simp add: pendingIndices_single)
  next
    case True
    have step: "settleLoop (Suc budget) t fuel pf apiKey model inputs config [state] w
        = settleLoop budget (Suc t) fuel pf apiKey model inputs config
            [fst (resume fuel pf apiKey model inputs config state w)]
            (snd (resume fuel pf apiKey model inputs config state w))"
      using True by (simp add: pendingIndices_single split_beta)
    show ?thesis
      using Suc.IH [of "Suc t" "fst (resume fuel pf apiKey model inputs config state w)"
                       "snd (resume fuel pf apiKey model inputs config state w)"]
      by (simp only: step resume_completion)
  qed
qed

lemma not_pending_cases:
  "\<not> isPending state \<Longrightarrow> state = Stalled \<or> (\<exists>result. state = Finished result)"
  by (cases state) simp_all

lemma settleAll_unfold:
  "settleAll fuel pf apiKey model inputs config n w =
     (case those (map settledResult
             (fst (settleLoop (n * (6 * fuel + 6)) 0 fuel pf apiKey model inputs config
                     (fst (launchAll pf apiKey model inputs config n w))
                     (snd (launchAll pf apiKey model inputs config n w))))) of
        None \<Rightarrow> None
      | Some results \<Rightarrow>
          Some (results,
                snd (settleLoop (n * (6 * fuel + 6)) 0 fuel pf apiKey model inputs config
                       (fst (launchAll pf apiKey model inputs config n w))
                       (snd (launchAll pf apiKey model inputs config n w)))))"
  by (simp add: settleAll_def split_beta)

lemma settleAll_single:
  "settleAll fuel pf apiKey model inputs config 1 w =
     (case retryWithBackoff (videoOperation fuel pf apiKey model inputs config) 3 2000 w of
        None \<Rightarrow> None
      | Some (result, w') \<Rightarrow> Some ([result], w'))"
proof -
  define state where "state = fst (startAttempt pf apiKey model inputs config 0 Nullish w)"
  define w1 where "w1 = snd (startAttempt pf apiKey model inputs config 0 Nullish w)"
  define run where "run = settleLoop (1 * (6 * fuel + 6)) 0 fuel pf apiKey model inputs config [state] w1"
  have launch: "launchAll pf apiKey model inputs config 1 w = ([state], w1)"
    by (simp add: state_def w1_def split_beta)
  have unfolded: "settleAll fuel pf apiKey model inputs config 1 w =
      (case those (map settledResult (fst run)) of
         None \<Rightarrow> None | Some results \<Rightarrow> Some (results, snd run))"
    by (simp only: settleAll_unfold launch fst_conv snd_conv run_def)
  obtain final where final: "fst run = [final]"
    and same: "completion fuel pf apiKey model inputs config final (snd run)
                 = completion fuel pf apiKey model inputs config state w1"
    using settleLoop_single [of "1 * (6 * fuel + 6)" 0 fuel pf apiKey model inputs config state w1]
    unfolding run_def by blast
  have start: "completion fuel pf apiKey model inputs config state w1
      = retryWithBackoff (videoOperation fuel pf apiKey model inputs config) 3 2000 w"
    unfolding state_def w1_def retryWithBackoff_def by (rule startAttempt_completion)
  have "sum_list (map (remainingSteps fuel) [state]) \<le> 1 * (6 * fuel + 6)"
    using launchAll_remainingSteps [of fuel pf apiKey model inputs config 1 w]
    by (simp only: launch fst_conv)
  then have "pendingIndices (fst run) = []"
    unfolding run_def by (rule settleLoop_settles)
  then have "\<not> isPending final"
    by (simp add: final pendingIndices_single split: if_splits)
  then have "final = Stalled \<or> (\<exists>result. final = Finished result)"
    by (rule not_pending_cases)
  then show ?thesis
  proof
    assume stalled: "final = Stalled"
    have "retryWithBackoff (videoOperation fuel pf apiKey model inputs config) 3 2000 w = None"
      using same by (simp add: stalled start)
    then show ?thesis
      unfolding unfolded final stalled by simp
  next
    assume "\<exists>result. final = Finished result"
    then obtain result where finished: "final = Finished result" ..
    have "retryWithBackoff (videoOperation fuel pf apiKey model inputs config) 3 2000 w
            = Some (result, snd run)"
      using same by (simp add: finished start)
    then show ?thesis
      unfolding unfolded final finished by simp
  qed
qed

lemma those_None_Stalled:
  "\<forall>state \<in> set states. \<not> isPending state \<Longrightarrow>
   those (map settledResult states) = None \<longleftrightarrow> Stalled \<in> set states"
proof (induction states)
  case Nil
  then show ?case by simp
next
  case (Cons state states)
  then show ?case
    using not_pending_cases [of state] by (auto split: option.splits)
qed

lemma settleAll_None:
  "settleAll fuel pf apiKey model inputs config n w = None \<longleftrightarrow>
     Stalled \<in> set (fst (settleLoop (n * (6 * fuel + 6)) 0 fuel pf apiKey model inputs config
                            (fst (launchAll pf apiKey model inputs config n w))
                            (snd (launchAll pf apiKey model inputs config n w))))"
proof -
  define final where "final = fst (settleLoop (n * (6 * fuel + 6)) 0 fuel pf apiKey model inputs config
                            (fst (launchAll pf apiKey model inputs config n w))
                            (snd (launchAll pf apiKey model inputs config n w)))"
  have "pendingIndices final = []"
    unfolding final_def by (rule settleLoop_settles) (rule launchAll_remainingSteps)
  then have "\<forall>state \<in> set final. \<not> isPending state"
    by (auto simp add: pendingIndices_def filter_empty_conv in_set_conv_nth)
  then have "those (map settledResult final) = None \<longleftrightarrow> Stalled \<in> set final"
    by (rule those_None_Stalled)
  then show ?thesis
    unfolding settleAll_unfold final_def by (cases "those (map settledResult final)") (auto simp add: final_def)
qed






lemma missing_key_rejected_eagerly:
  assumes "\<not> truthy apiKey"
  shows "sendChatMessage pf apiKey history msg chatOptions w = (Inl missingKeyError, w)"
    and "generateImageFromText pf apiKey p model images imageOptions w = (Inl missingKeyError, w)"
    and "generateAudio pf apiKey p referenceAudio personaLabel w = (Inl missingKeyError, w)"
  using assms
  by (simp_all add: sendChatMessage_def generateImageFromText_def generateAudio_def getClient_def)

lemma generateVideo_settled:
  assumes "newGoogleGenAI pf apiKey = None"
    and "prepareVideoRequest pf (p @ qualitySuffix) options img vid refs w = (Inr (inputs, config), w1)"
    and "settleAll fuel pf apiKey model inputs config (videoCount options) w1 = Some (results, w2)"
  shows "generateVideo fuel pf apiKey p model options img vid refs w =
           (case validVideos apiKey results of
              (primary, vd) # others \<Rightarrow>
                Some (Inr \<lparr>uri = Some primary, isFallbackImage = Some False,
                           videoMetadata = Some vd, uris = Some (primary # map fst others)\<rparr>, w2)
            | [] \<Rightarrow>
                (case generateImageFromText pf apiKey (''Cinematic movie still, '' @ p @ qualitySuffix)
                        ''gemini-2.5-flash-image'' []
                        \<lparr>aspectRatio = VideoOptions.aspectRatio options, resolution = None,
                         count = None\<rparr> w2 of
                   (Inr imgs, w3) \<Rightarrow>
                     Some (Inr \<lparr>uri = (case imgs of [] \<Rightarrow> None | first # _ \<Rightarrow> Some first),
                                isFallbackImage = Some True, videoMetadata = None, uris = None\<rparr>, w3)
                 | (Inl imgErr, w3) \<Rightarrow>
                     Some (Inl (newError (''Video generation failed: ''
                                  @ getErrorMessage (fanOutError results))), w3)))"
  by (simp add: generateVideo_def assms)


lemma retryWithBackoff_first_permanent:
  "operation w = Some (Inl e, w1) \<Longrightarrow> isOverloaded e = Inr False \<Longrightarrow>
   retryWithBackoff operation 3 2000 w = Some (Inl e, w1)"
  using retryLoop_give_up [of 0 3 operation w e w1 False 2000 Nullish]
  by (simp add: retryWithBackoff_def)

lemma videoOperation_example:
  "videoOperation 0 (examplePlatform videoAnswers) apiKey model inputs config w =
     (case videoAnswers (length (filter isVideoRequest w)) of
        Inl e \<Rightarrow> Some (Inl e, w @ [GenerateVideos model inputs config])
      | Inr operation \<Rightarrow>
          if isDone operation then Some (Inr operation, w @ [GenerateVideos model inputs config])
          else None)"
  by (simp add: videoOperation_def examplePlatform_def split: sum.split)

lemma prepareVideoRequest_example:
  "prepareVideoRequest pf (''a cat'' @ qualitySuffix) (exampleOptions n) None None None []
     = (Inr (fst exampleRequest, snd exampleRequest), [])"
  by (simp add: prepareVideoRequest_def exampleOptions_def exampleRequest_def or_default_def
        truthy_def)

lemma videoCount_example:
  "videoCount (exampleOptions (Some 3)) = 3" "videoCount (exampleOptions (Some 2)) = 2"
  "videoCount (exampleOptions None) = 1"
  by (simp_all add: videoCount_def exampleOptions_def)

lemma badRequest_permanent:
  "isOverloaded (remoteError 400 ''API key not valid'') = Inr False"
  by code_simp



lemma retriedFirst_settled_reversed:
  "settleAll 0
     (examplePlatform (\<lambda>k. if k = 0 then Inl (remoteError 503 ''Service Unavailable'')
                            else if k = 1 then Inr (finishedVideo ''https://v/A'')
                            else Inr (finishedVideo ''https://v/B''))
        \<lparr>settleOrder := (\<lambda>t. 1)\<rparr>)
     (Some ''KEY'') ''veo'' (fst exampleRequest) (snd exampleRequest) 2 []
   = Some ([Inr (finishedVideo ''https://v/B''), Inr (finishedVideo ''https://v/A'')],
           [exampleEvent, exampleEvent, Waited 2000, exampleEvent])"
  by code_simp






text \<open>
  C9 on an empty API key, which \<open>getClient\<close> counts as missing, and a platform that
  rejects the video request: chat, image and audio generation throw the missing-key
  error without any call, but video generation sends its request, then tries the image
  fallback, and fails with the message of the remote rejection.
\<close>

theorem generateVideo_without_key_calls_remote:
  "\<not> truthy (Some '''')
 \<and> sendChatMessage (examplePlatform (\<lambda>k. Inl (remoteError 400 ''API key not valid'')))
      (Some '''') [] ''hi'' None [] = (Inl missingKeyError, [])
 \<and> generateImageFromText (examplePlatform (\<lambda>k. Inl (remoteError 400 ''API key not valid'')))
      (Some '''') ''a cat'' ''gemini-2.5-flash-image'' []
      \<lparr>aspectRatio = None, resolution = None, count = None\<rparr> [] = (Inl missingKeyError, [])
 \<and> generateAudio (examplePlatform (\<lambda>k. Inl (remoteError 400 ''API key not valid'')))
      (Some '''') ''hello'' None None [] = (Inl missingKeyError, [])
 \<and> generateVideo 0 (examplePlatform (\<lambda>k. Inl (remoteError 400 ''API key not valid'')))
      (Some '''') ''a cat'' ''veo'' (exampleOptions None) None None None []
    = Some (Inl (newError ''Video generation failed: API key not valid''), [exampleEvent])"
proof -
  let ?pf = "examplePlatform (\<lambda>k. Inl (remoteError 400 ''API key not valid''))"
  have nokey: "\<not> truthy (Some '''')" by (simp add: truthy_def)
  have ctor: "newGoogleGenAI ?pf k = None" for k
    by (simp add: examplePlatform_def)
  have attempt: "retryWithBackoff
        (videoOperation 0 ?pf (Some '''') ''veo'' (fst exampleRequest) (snd exampleRequest)) 3 2000 []
      = Some (Inl (remoteError 400 ''API key not valid''), [exampleEvent])"
    by (rule retryWithBackoff_first_permanent)
       (simp_all add: videoOperation_example exampleEvent_def badRequest_permanent)
  have settled: "settleAll 0 ?pf (Some '''') ''veo'' (fst exampleRequest) (snd exampleRequest) 1 []
      = Some ([Inl (remoteError 400 ''API key not valid'')], [exampleEvent])"
    unfolding settleAll_single by (simp add: attempt)
  have cause: "getErrorMessage (fanOutError [Inl (remoteError 400 ''API key not valid'')])
      = ''API key not valid''"
    by (simp add: fanOutError_def remoteError_def getErrorMessage_def or_default_def)
  have video: "generateVideo 0 ?pf (Some '''') ''a cat'' ''veo'' (exampleOptions None) None None None []
      = Some (Inl (newError ''Video generation failed: API key not valid''), [exampleEvent])"
    using generateVideo_settled
            [where pf = ?pf and apiKey = "Some []" and p = "''a cat''"
               and options = "exampleOptions None" and img = None and vid = None and refs = None
               and w = "[]" and inputs = "fst exampleRequest" and config = "snd exampleRequest"
               and ?w1.0 = "[]" and fuel = 0 and model = "''veo''"
               and results = "[Inl (remoteError 400 ''API key not valid'')]"
               and ?w2.0 = "[exampleEvent]"]
          ctor prepareVideoRequest_example settled missing_key_rejected_eagerly(2) [OF nokey, of ?pf]
    by (simp add: videoCount_example cause)
  show ?thesis
    using nokey video missing_key_rejected_eagerly [OF nokey, of ?pf] by simp
qed

end
